theory Spec2Isabelle
  imports Main
begin

section \<open>JavaScript values used by the tools\<close>

text \<open>
  Instants are milliseconds since the epoch, as \<open>Date.prototype.getTime\<close> reports them.
  An optional string is \<open>None\<close> when the property is \<open>undefined\<close> or \<open>null\<close>; the
  empty string is present but falsy, as in JavaScript.
\<close>

type_synonym instant = int

definition truthy :: "string option \<Rightarrow> bool" where
  "truthy v = (case v of None \<Rightarrow> False | Some s \<Rightarrow> s \<noteq> [])"

text \<open>\<open>a || b\<close> on optional strings.\<close>

definition js_or :: "string option \<Rightarrow> string option \<Rightarrow> string option" where
  "js_or a b = (if truthy a then a else b)"

text \<open>\<open>a || 'literal'\<close>: the right operand is always a string.\<close>

definition js_or_str :: "string option \<Rightarrow> string \<Rightarrow> string" where
  "js_or_str a b = (case a of None \<Rightarrow> b | Some s \<Rightarrow> if s = [] then b else s)"

text \<open>A template literal prints an absent value as the word \<open>undefined\<close>.\<close>

definition interpolate :: "string option \<Rightarrow> string" where
  "interpolate v = (case v of None \<Rightarrow> ''undefined'' | Some s \<Rightarrow> s)"

datatype exn =
    Error string
  | RangeError
  | TypeError
  | SyntaxError
  | StoreError
  | Rejected

datatype 'a outcome = Returns 'a | Throws

datatype jval = Str string | Num int

definition opt_field :: "string \<Rightarrow> string option \<Rightarrow> (string \<times> jval) list" where
  "opt_field k v = (case v of None \<Rightarrow> [] | Some s \<Rightarrow> [(k, Str s)])"

section \<open>Rows of the store (lib/database.ts)\<close>

datatype call_status = In_progress | Call_completed | Failed | Abandoned

datatype lead_status = New | Contacted | Qualified | Converted | Lost

datatype level = High | Medium | Low

datatype appointment_status = Scheduled | Confirmed | Canceled | Appointment_completed | No_show

record hours =
  opens :: string
  closes :: string

record business =
  b_id :: string
  agent_voice :: "string option"
  business_hours :: "(string \<times> hours) list option"
  timezone :: "string option"
  google_calendar_connected :: bool
  google_calendar_id :: "string option"
  hubspot_api_key :: "string option"

record phone_number =
  p_id :: string
  forward_to :: "string option"

record call =
  c_id :: string
  c_business_id :: string
  phone_number_id :: "string option"
  caller_name :: "string option"
  caller_email :: "string option"
  twilio_call_sid :: "string option"
  twilio_status :: "string option"
  started_at :: instant
  answered_at :: "instant option"
  ended_at :: "instant option"
  duration_seconds :: "int option"
  status :: call_status
  outcome :: "string option"
  transferred_to_human :: "bool option"
  c_notes :: "string option"

record lead =
  l_id :: string
  l_business_id :: string
  l_call_id :: "string option"
  l_name :: "string option"
  l_email :: "string option"
  l_phone :: "string option"
  l_company :: "string option"
  l_source :: "string option"
  l_status :: "lead_status option"
  l_interest_level :: "level option"
  hubspot_contact_id :: "string option"
  synced_at :: "instant option"
  l_notes :: "string option"

record appointment =
  a_id :: string
  a_business_id :: string
  a_call_id :: "string option"
  title :: string
  description :: "string option"
  scheduled_at :: instant
  duration_minutes :: "int option"
  attendee_name :: "string option"
  attendee_email :: "string option"
  attendee_phone :: "string option"
  google_calendar_event_id :: "string option"
  google_meet_link :: "string option"
  a_status :: "appointment_status option"

record call_event =
  e_call_id :: string
  event_type :: string
  event_data :: "(string \<times> jval) list"

record store =
  businesses :: "business list"
  phone_numbers :: "phone_number list"
  calls :: "call list"
  leads :: "lead list"
  appointments :: "appointment list"
  call_events :: "call_event list"

section \<open>The surroundings of one invocation\<close>

text \<open>
  Every request to the store either resolves with data, resolves with an \<open>error\<close> field, or
  rejects. Which of the three happens is decided outside the program, per kind of request.
\<close>

datatype link = Up | Errors | Rejects

datatype request =
    Select_business
  | Select_call
  | Select_phone_number
  | Select_calls_by_sid
  | Update_call
  | Insert_lead
  | Update_lead
  | Insert_appointment
  | Insert_event

record calendar_response =
  event_id :: "string option"
  hangoutLink :: "string option"

record http_response =
  ok :: bool
  json_id :: "string option outcome"

datatype json_value = JNull | JObject "(string \<times> string option) list" | JOther

text \<open>
  \<open>dateParse\<close> is \<open>new Date(string)\<close> of the engine, in the local time zone of the process
  (\<open>None\<close> is the invalid date); \<open>clock\<close> is what \<open>new Date()\<close> reads; \<open>localeDate\<close>,
  \<open>localeTime\<close>, \<open>weekdayName\<close> and \<open>wallTime\<close> are the engine's locale formatting;
  \<open>jsonParse\<close> is \<open>JSON.parse\<close> (\<open>None\<close> is a syntax error). \<open>newId\<close> is the key the
  store assigns to an inserted row. The remaining fields are the answers of the external
  services and the process environment variables.
\<close>

record env =
  clock :: instant
  dateParse :: "string \<Rightarrow> instant option"
  localeDate :: "instant \<Rightarrow> string"
  localeTime :: "instant \<Rightarrow> string"
  weekdayName :: "string \<Rightarrow> string \<Rightarrow> instant \<Rightarrow> string option"
  wallTime :: "string \<Rightarrow> instant \<Rightarrow> string option"
  jsonParse :: "string \<Rightarrow> json_value option"
  net :: "request \<Rightarrow> link"
  newId :: string
  calendarInsert :: "calendar_response outcome"
  hubspotFetch :: "http_response outcome"
  twilioAccountSid :: "string option"
  twilioAuthToken :: "string option"
  twilioFetch :: "http_response outcome"
  sessionConstruct :: "unit outcome"
  sessionStart :: "unit outcome"
  roomConnect :: "unit outcome"

text \<open>Calls that leave the process towards an external service, in the order they are made.\<close>

datatype ext_call =
    Calendar_insert string
  | Hubspot_create string
  | Twilio_redirect string string

record tool_context =
  businessId :: string
  callId :: string
  callerPhone :: "string option"
  twilioCallSid :: "string option"

text \<open>What a tool's \<open>execute\<close> leaves behind: the spoken string, the store, the external calls.\<close>

record tool_result =
  spoken :: string
  final :: store
  external :: "ext_call list"

section \<open>The store client (class Database)\<close>

text \<open>\<open>.single()\<close> yields the row when exactly one row matches and an error otherwise.\<close>

definition single :: "'a list \<Rightarrow> 'a option" where
  "single rows = (case rows of [] \<Rightarrow> None | r # rest \<Rightarrow> (if rest = [] then Some r else None))"

text \<open>\<open>getBusiness\<close> and \<open>getCall\<close> turn an error result into \<open>null\<close>.\<close>

definition getBusiness :: "env \<Rightarrow> store \<Rightarrow> string \<Rightarrow> exn + business option" where
  "getBusiness e st bid =
     (case net e Select_business of
        Rejects \<Rightarrow> Inl Rejected
      | Errors \<Rightarrow> Inr None
      | Up \<Rightarrow> Inr (single (filter (\<lambda>b. b_id b = bid) (businesses st))))"

definition getCall :: "env \<Rightarrow> store \<Rightarrow> string \<Rightarrow> exn + call option" where
  "getCall e st cid =
     (case net e Select_call of
        Rejects \<Rightarrow> Inl Rejected
      | Errors \<Rightarrow> Inr None
      | Up \<Rightarrow> Inr (single (filter (\<lambda>c. c_id c = cid) (calls st))))"

text \<open>
  \<open>updateCall\<close> changes the row whose key is \<open>cid\<close> and throws the error of the result; the
  result of \<open>.single()\<close> is an error when no row has that key. \<open>id\<close> is the primary key of
  the table, so the request changes one row or none.
\<close>

definition updateCall :: "env \<Rightarrow> store \<Rightarrow> string \<Rightarrow> (call \<Rightarrow> call) \<Rightarrow> (exn + call) \<times> store" where
  "updateCall e st cid f =
     (case net e Update_call of
        Rejects \<Rightarrow> (Inl Rejected, st)
      | Errors \<Rightarrow> (Inl StoreError, st)
      | Up \<Rightarrow>
          (case single (filter (\<lambda>c. c_id c = cid) (calls st)) of
             None \<Rightarrow> (Inl StoreError, st)
           | Some c \<Rightarrow>
               (Inr (f c), st\<lparr>calls := map (\<lambda>r. if c_id r = cid then f r else r) (calls st)\<rparr>)))"

text \<open>
  The inserts return the stored row, whose key the store has assigned. \<open>id\<close> is the
  primary key, so an insert under a key already present is an error of the store.
\<close>

definition createLead :: "env \<Rightarrow> store \<Rightarrow> lead \<Rightarrow> (exn + lead) \<times> store" where
  "createLead e st row =
     (case net e Insert_lead of
        Rejects \<Rightarrow> (Inl Rejected, st)
      | Errors \<Rightarrow> (Inl StoreError, st)
      | Up \<Rightarrow>
          (if newId e \<in> set (map l_id (leads st)) then (Inl StoreError, st)
           else (let r = row\<lparr>l_id := newId e\<rparr> in (Inr r, st\<lparr>leads := leads st @ [r]\<rparr>))))"

definition updateLead :: "env \<Rightarrow> store \<Rightarrow> string \<Rightarrow> (lead \<Rightarrow> lead) \<Rightarrow> (exn + lead) \<times> store" where
  "updateLead e st lid f =
     (case net e Update_lead of
        Rejects \<Rightarrow> (Inl Rejected, st)
      | Errors \<Rightarrow> (Inl StoreError, st)
      | Up \<Rightarrow>
          (case single (filter (\<lambda>l. l_id l = lid) (leads st)) of
             None \<Rightarrow> (Inl StoreError, st)
           | Some l \<Rightarrow>
               (Inr (f l), st\<lparr>leads := map (\<lambda>r. if l_id r = lid then f r else r) (leads st)\<rparr>)))"

definition createAppointment :: "env \<Rightarrow> store \<Rightarrow> appointment \<Rightarrow> (exn + appointment) \<times> store" where
  "createAppointment e st row =
     (case net e Insert_appointment of
        Rejects \<Rightarrow> (Inl Rejected, st)
      | Errors \<Rightarrow> (Inl StoreError, st)
      | Up \<Rightarrow>
          (if newId e \<in> set (map a_id (appointments st)) then (Inl StoreError, st)
           else (let r = row\<lparr>a_id := newId e\<rparr>
                 in (Inr r, st\<lparr>appointments := appointments st @ [r]\<rparr>))))"

text \<open>
  \<open>logCallEvent\<close> awaits the insert and never looks at the result: an error result is
  dropped without a throw, and only a rejected request raises.
\<close>

definition logCallEvent ::
  "env \<Rightarrow> store \<Rightarrow> string \<Rightarrow> string \<Rightarrow> (string \<times> jval) list \<Rightarrow> (exn + unit) \<times> store" where
  "logCallEvent e st cid ty dat =
     (case net e Insert_event of
        Rejects \<Rightarrow> (Inl Rejected, st)
      | Errors \<Rightarrow> (Inr (), st)
      | Up \<Rightarrow>
          (Inr (), st\<lparr>call_events := call_events st @
                      [\<lparr>e_call_id = cid, event_type = ty, event_data = dat\<rparr>]\<rparr>))"

text \<open>
  The tools also query the client directly. The transfer tool reads only \<open>data\<close> of the
  result, which is \<open>null\<close> on an error.
\<close>

definition selectPhoneNumber :: "env \<Rightarrow> store \<Rightarrow> string \<Rightarrow> exn + phone_number option" where
  "selectPhoneNumber e st pid =
     (case net e Select_phone_number of
        Rejects \<Rightarrow> Inl Rejected
      | Errors \<Rightarrow> Inr None
      | Up \<Rightarrow> Inr (single (filter (\<lambda>p. p_id p = pid) (phone_numbers st))))"

section \<open>book_appointment (tools/appointment.ts)\<close>

record appointment_args =
  date :: string
  time :: string
  customer_name :: string
  customer_email :: string
  customer_phone :: "string option"
  purpose :: "string option"
  arg_duration_minutes :: "int option"

definition msg_date_passed :: string where
  "msg_date_passed =
     ''I apologize, but that date and time has already passed. Could you provide a future date and time for your appointment?''"

definition msg_booking_failed :: string where
  "msg_booking_failed =
     ''I apologize, but I encountered an issue while booking your appointment. Let me transfer you to our team who can help you schedule this manually.''"

definition msg_booked :: "env \<Rightarrow> instant \<Rightarrow> string option \<Rightarrow> string \<Rightarrow> string" where
  "msg_booked e t googleMeetLink email =
     ''Perfect! I've successfully booked your appointment for '' @ localeDate e t @ '' at '' @
       localeTime e t @ ''.'' @
     (if truthy googleMeetLink
      then '' A calendar invitation with a Google Meet link has been sent to '' @ email @ ''.''
      else '' You'll receive a confirmation email at '' @ email @ '' shortly.'')"

text \<open>\<open>toISOString\<close> throws a RangeError outside the range of valid time values.\<close>

definition time_in_range :: "int \<Rightarrow> bool" where
  "time_in_range t = (- 8640000000000000 \<le> t \<and> t \<le> 8640000000000000)"

text \<open>
  The inner \<open>try\<close> of the tool: the calendar event is requested only when the tenant has a
  connected calendar, and everything thrown in there is logged and dropped. The result is
  \<open>(calendarEventId, googleMeetLink)\<close> and the external calls made.
\<close>

definition calendar_event ::
  "env \<Rightarrow> business \<Rightarrow> instant option \<Rightarrow> int \<Rightarrow> (string option \<times> string option) \<times> ext_call list" where
  "calendar_event e b scheduledAt duration =
     (if google_calendar_connected b \<and> truthy (google_calendar_id b) then
        (case scheduledAt of
           None \<Rightarrow> ((None, None), [])
         | Some t \<Rightarrow>
             (if \<not> time_in_range (t + duration * 60000) then ((None, None), [])
              else
                (case calendarInsert e of
                   Throws \<Rightarrow> ((None, None), [Calendar_insert (js_or_str (google_calendar_id b) [])])
                 | Returns r \<Rightarrow>
                     ((js_or (event_id r) None, js_or (hangoutLink r) None),
                      [Calendar_insert (js_or_str (google_calendar_id b) [])]))))
      else ((None, None), []))"

text \<open>The three writes that follow, each awaited; the first throw ends the sequence.\<close>

definition save_appointment ::
  "env \<Rightarrow> tool_context \<Rightarrow> appointment_args \<Rightarrow> instant \<Rightarrow> int \<Rightarrow> string option \<Rightarrow> string option \<Rightarrow>
     store \<Rightarrow> (exn + string) \<times> store" where
  "save_appointment e ctx a t duration calendarEventId googleMeetLink st =
     (case createAppointment e st
             \<lparr>a_id = [], a_business_id = businessId ctx, a_call_id = Some (callId ctx),
              title = js_or_str (purpose a) (''Meeting with '' @ customer_name a),
              description = purpose a, scheduled_at = t, duration_minutes = Some duration,
              attendee_name = Some (customer_name a), attendee_email = Some (customer_email a),
              attendee_phone = js_or (customer_phone a) (callerPhone ctx),
              google_calendar_event_id = calendarEventId, google_meet_link = googleMeetLink,
              a_status = Some Scheduled\<rparr> of
        (Inl x, st1) \<Rightarrow> (Inl x, st1)
      | (Inr appt, st1) \<Rightarrow>
          (case logCallEvent e st1 (callId ctx) ''appointment_booked''
                  [(''appointment_id'', Str (a_id appt)), (''scheduled_at'', Num t),
                   (''customer_name'', Str (customer_name a)),
                   (''customer_email'', Str (customer_email a))] of
             (Inl x, st2) \<Rightarrow> (Inl x, st2)
           | (Inr u, st2) \<Rightarrow>
               (case updateCall e st2 (callId ctx) (\<lambda>c. c\<lparr>outcome := Some ''appointment_booked''\<rparr>) of
                  (Inl x, st3) \<Rightarrow> (Inl x, st3)
                | (Inr c, st3) \<Rightarrow> (Inr (msg_booked e t googleMeetLink (customer_email a)), st3))))"

text \<open>
  The body of the outer \<open>try\<close>. The instant is built from the two arguments alone and is
  compared with the clock before the tenant is read. An invalid date is not smaller than
  the clock, so it passes the check and fails later in \<open>toISOString\<close>.
\<close>

definition book_appointment_try ::
  "env \<Rightarrow> tool_context \<Rightarrow> appointment_args \<Rightarrow> store \<Rightarrow> (exn + string) \<times> store \<times> ext_call list" where
  "book_appointment_try e ctx a st =
     (let scheduledAt = dateParse e (date a @ ''T'' @ time a @ '':00'');
          duration = (case arg_duration_minutes a of None \<Rightarrow> 30 | Some d \<Rightarrow> d)
      in if (case scheduledAt of None \<Rightarrow> False | Some t \<Rightarrow> t < clock e)
         then (Inr msg_date_passed, st, [])
         else
           (case getBusiness e st (businessId ctx) of
              Inl x \<Rightarrow> (Inl x, st, [])
            | Inr None \<Rightarrow> (Inl (Error ''Business not found''), st, [])
            | Inr (Some b) \<Rightarrow>
                (case calendar_event e b scheduledAt duration of
                   ((calendarEventId, googleMeetLink), ext) \<Rightarrow>
                     (case scheduledAt of
                        None \<Rightarrow> (Inl RangeError, st, ext)
                      | Some t \<Rightarrow>
                          (case save_appointment e ctx a t duration calendarEventId
                                  googleMeetLink st of
                             (r, st') \<Rightarrow> (r, st', ext))))))"

definition book_appointment ::
  "env \<Rightarrow> tool_context \<Rightarrow> appointment_args \<Rightarrow> store \<Rightarrow> tool_result" where
  "book_appointment e ctx a st =
     (case book_appointment_try e ctx a st of
        (Inr s, st', ext) \<Rightarrow> \<lparr>spoken = s, final = st', external = ext\<rparr>
      | (Inl x, st', ext) \<Rightarrow> \<lparr>spoken = msg_booking_failed, final = st', external = ext\<rparr>)"

section \<open>create_lead (tools/lead.ts)\<close>

record lead_args =
  name :: string
  email :: "string option"
  phone :: "string option"
  company :: "string option"
  interest_level :: "level option"
  lead_notes :: "string option"

definition msg_need_contact :: string where
  "msg_need_contact =
     ''I need either an email address or phone number to save your information. Could you provide one of those?''"

definition msg_lead_failed :: string where
  "msg_lead_failed =
     ''I apologize, but I had trouble saving your information. Let me make sure our team gets your details - could you repeat your contact information?''"

definition msg_lead_saved :: "lead_args \<Rightarrow> string" where
  "msg_lead_saved a =
     ''Great! I've saved your information, '' @ name a @ ''. '' @
     (if truthy (email a)
      then ''We'll send you more details at '' @ interpolate (email a) @ ''.''
      else ''We'll follow up with you at '' @
             js_or_str (phone a) ''the number you called from'' @ ''.'') @
     '' Is there anything else I can help you with today?''"

text \<open>
  \<open>createHubSpotContact\<close>: one POST; a response that is not \<open>ok\<close> is thrown as an error,
  otherwise the \<open>id\<close> of the body is returned.
\<close>

definition createHubSpotContact :: "env \<Rightarrow> string \<Rightarrow> (exn + string option) \<times> ext_call list" where
  "createHubSpotContact e apiKey =
     (case hubspotFetch e of
        Throws \<Rightarrow> (Inl Rejected, [Hubspot_create apiKey])
      | Returns r \<Rightarrow>
          (if \<not> ok r then (Inl (Error ''HubSpot API error''), [Hubspot_create apiKey])
           else
             (case json_id r of
                Throws \<Rightarrow> (Inl SyntaxError, [Hubspot_create apiKey])
              | Returns i \<Rightarrow> (Inr i, [Hubspot_create apiKey]))))"

text \<open>
  The inner \<open>try\<close> around the CRM synchronisation: the remote contact is created, then its
  id and the time are written onto the lead row; anything thrown is logged and dropped.
\<close>

definition hubspot_sync :: "env \<Rightarrow> business \<Rightarrow> lead \<Rightarrow> store \<Rightarrow> store \<times> ext_call list" where
  "hubspot_sync e b ld st =
     (if truthy (hubspot_api_key b) then
        (case createHubSpotContact e (js_or_str (hubspot_api_key b) []) of
           (Inl x, ext) \<Rightarrow> (st, ext)
         | (Inr i, ext) \<Rightarrow>
             (case updateLead e st (l_id ld)
                     (\<lambda>l. l\<lparr>hubspot_contact_id :=
                               (case i of None \<Rightarrow> hubspot_contact_id l | Some v \<Rightarrow> Some v),
                            synced_at := Some (clock e)\<rparr>) of
                (r, st') \<Rightarrow> (st', ext)))
      else (st, []))"

definition create_lead_try ::
  "env \<Rightarrow> tool_context \<Rightarrow> lead_args \<Rightarrow> store \<Rightarrow> (exn + string) \<times> store \<times> ext_call list" where
  "create_lead_try e ctx a st =
     (if \<not> truthy (email a) \<and> \<not> truthy (phone a) \<and> \<not> truthy (callerPhone ctx)
      then (Inr msg_need_contact, st, [])
      else
        (case getBusiness e st (businessId ctx) of
           Inl x \<Rightarrow> (Inl x, st, [])
         | Inr None \<Rightarrow> (Inl (Error ''Business not found''), st, [])
         | Inr (Some b) \<Rightarrow>
             (case createLead e st
                     \<lparr>l_id = [], l_business_id = businessId ctx, l_call_id = Some (callId ctx),
                      l_name = Some (name a), l_email = email a,
                      l_phone = js_or (phone a) (callerPhone ctx), l_company = company a,
                      l_source = Some ''voice_call'', l_status = Some New,
                      l_interest_level =
                        Some (case interest_level a of None \<Rightarrow> Medium | Some v \<Rightarrow> v),
                      hubspot_contact_id = None, synced_at = None, l_notes = lead_notes a\<rparr> of
                (Inl x, st1) \<Rightarrow> (Inl x, st1, [])
              | (Inr ld, st1) \<Rightarrow>
                  (case hubspot_sync e b ld st1 of
                     (st2, ext) \<Rightarrow>
                       (case logCallEvent e st2 (callId ctx) ''lead_captured''
                               ([(''lead_id'', Str (l_id ld)), (''name'', Str (name a))] @
                                opt_field ''email'' (email a) @ opt_field ''phone'' (phone a)) of
                          (Inl x, st3) \<Rightarrow> (Inl x, st3, ext)
                        | (Inr u, st3) \<Rightarrow>
                            (case updateCall e st3 (callId ctx)
                                    (\<lambda>c. c\<lparr>outcome := Some ''lead_captured'',
                                           caller_name := Some (name a),
                                           caller_email :=
                                             (case email a of None \<Rightarrow> caller_email c
                                              | Some v \<Rightarrow> Some v)\<rparr>) of
                               (Inl x, st4) \<Rightarrow> (Inl x, st4, ext)
                             | (Inr c, st4) \<Rightarrow> (Inr (msg_lead_saved a), st4, ext)))))))"

definition create_lead :: "env \<Rightarrow> tool_context \<Rightarrow> lead_args \<Rightarrow> store \<Rightarrow> tool_result" where
  "create_lead e ctx a st =
     (case create_lead_try e ctx a st of
        (Inr s, st', ext) \<Rightarrow> \<lparr>spoken = s, final = st', external = ext\<rparr>
      | (Inl x, st', ext) \<Rightarrow> \<lparr>spoken = msg_lead_failed, final = st', external = ext\<rparr>)"

section \<open>transfer_to_human (tools/transfer.ts)\<close>

record transfer_args =
  reason :: string
  urgency :: "level option"
  transfer_notes :: "string option"

definition level_name :: "level \<Rightarrow> string" where
  "level_name v = (case v of High \<Rightarrow> ''high'' | Medium \<Rightarrow> ''medium'' | Low \<Rightarrow> ''low'')"

text \<open>
  \<open>String.prototype.trim\<close>. A string is a list of code units and the type \<open>char\<close> holds
  the units below 256. The white space and the line terminators of the language among them
  are U+0009 to U+000D, the space U+0020 and the no-break space U+00A0; the others (U+1680,
  U+2000 to U+200A, U+2028, U+2029, U+202F, U+205F, U+3000 and U+FEFF) are units beyond 255
  and so not values of the type.
\<close>

definition is_space :: "char \<Rightarrow> bool" where
  "is_space c =
     (c \<in> set [CHR 0x09, CHR 0x0A, CHR 0x0B, CHR 0x0C, CHR 0x0D, CHR 0x20, CHR 0xA0])"

definition trim :: "string \<Rightarrow> string" where
  "trim s = rev (dropWhile is_space (rev (dropWhile is_space s)))"

definition msg_no_transfer_number :: string where
  "msg_no_transfer_number =
     ''I apologize, but I'm unable to complete the transfer at this moment. However, I'll make sure our team reaches out to you shortly. Can I get the best number to reach you?''"

definition msg_transferring :: "string \<Rightarrow> string" where
  "msg_transferring r =
     ''Certainly! I'm transferring you now to one of our team members who can help with '' @ r @
     ''. Please hold for just a moment.''"

definition msg_connecting :: "string \<Rightarrow> string" where
  "msg_connecting r =
     ''I understand you need help with '' @ r @
     ''. I'm going to connect you with our team right away. Please hold on while I transfer your call.''"

definition msg_transfer_failed :: string where
  "msg_transfer_failed =
     ''I apologize for the difficulty. Let me make sure someone from our team contacts you directly. Could you confirm the best number to reach you?''"

text \<open>
  \<open>initiateTransferViaTwilio\<close>: it throws before any request when the credentials are not
  in the environment, and after the request when the response is not \<open>ok\<close>.
\<close>

definition initiateTransferViaTwilio ::
  "env \<Rightarrow> string \<Rightarrow> string \<Rightarrow> (exn + unit) \<times> ext_call list" where
  "initiateTransferViaTwilio e callSid transferNumber =
     (if truthy (twilioAccountSid e) \<and> truthy (twilioAuthToken e) then
        (case twilioFetch e of
           Throws \<Rightarrow> (Inl Rejected, [Twilio_redirect callSid transferNumber])
         | Returns r \<Rightarrow>
             (if \<not> ok r
              then (Inl (Error ''Twilio transfer failed''), [Twilio_redirect callSid transferNumber])
              else (Inr (), [Twilio_redirect callSid transferNumber])))
      else (Inl (Error ''Twilio credentials not configured''), []))"

text \<open>
  What follows once a forwarding number is known: the call row, the audit event, and then
  the redirect when the context holds the identifier of the telephony leg.
\<close>

definition transfer_with_number ::
  "env \<Rightarrow> tool_context \<Rightarrow> transfer_args \<Rightarrow> string \<Rightarrow> store \<Rightarrow> (exn + string) \<times> store \<times> ext_call list" where
  "transfer_with_number e ctx a transferNumber st =
     (case updateCall e st (callId ctx)
             (\<lambda>c. c\<lparr>transferred_to_human := Some True, outcome := Some ''transferred'',
                    c_notes := Some (trim (''Transfer reason: '' @ reason a @ ''. '' @
                                           js_or_str (transfer_notes a) []))\<rparr>) of
        (Inl x, st1) \<Rightarrow> (Inl x, st1, [])
      | (Inr c, st1) \<Rightarrow>
          (case logCallEvent e st1 (callId ctx) ''transfer_initiated''
                  ([(''reason'', Str (reason a)),
                    (''urgency'', Str (level_name (case urgency a of None \<Rightarrow> Medium | Some v \<Rightarrow> v)))] @
                   opt_field ''notes'' (transfer_notes a) @
                   [(''transfer_number'', Str transferNumber)]) of
             (Inl x, st2) \<Rightarrow> (Inl x, st2, [])
           | (Inr u, st2) \<Rightarrow>
               (if truthy (twilioCallSid ctx) then
                  (case initiateTransferViaTwilio e (js_or_str (twilioCallSid ctx) [])
                          transferNumber of
                     (Inr v, ext) \<Rightarrow> (Inr (msg_transferring (reason a)), st2, ext)
                   | (Inl x, ext) \<Rightarrow> (Inr (msg_connecting (reason a)), st2, ext))
                else (Inr (msg_connecting (reason a)), st2, []))))"

definition transfer_to_human_try ::
  "env \<Rightarrow> tool_context \<Rightarrow> transfer_args \<Rightarrow> store \<Rightarrow> (exn + string) \<times> store \<times> ext_call list" where
  "transfer_to_human_try e ctx a st =
     (case getBusiness e st (businessId ctx) of
        Inl x \<Rightarrow> (Inl x, st, [])
      | Inr None \<Rightarrow> (Inl (Error ''Business not found''), st, [])
      | Inr (Some b) \<Rightarrow>
          (case getCall e st (callId ctx) of
             Inl x \<Rightarrow> (Inl x, st, [])
           | Inr None \<Rightarrow> (Inl (Error ''Call or phone number not found''), st, [])
           | Inr (Some c) \<Rightarrow>
               (if \<not> truthy (phone_number_id c)
                then (Inl (Error ''Call or phone number not found''), st, [])
                else
                  (case selectPhoneNumber e st (js_or_str (phone_number_id c) []) of
                     Inl x \<Rightarrow> (Inl x, st, [])
                   | Inr phoneNumber \<Rightarrow>
                       (let transferNumber =
                              (case phoneNumber of None \<Rightarrow> None | Some p \<Rightarrow> forward_to p)
                        in if \<not> truthy transferNumber
                           then (Inr msg_no_transfer_number, st, [])
                           else transfer_with_number e ctx a (js_or_str transferNumber []) st)))))"

definition transfer_to_human ::
  "env \<Rightarrow> tool_context \<Rightarrow> transfer_args \<Rightarrow> store \<Rightarrow> tool_result" where
  "transfer_to_human e ctx a st =
     (case transfer_to_human_try e ctx a st of
        (Inr s, st', ext) \<Rightarrow> \<lparr>spoken = s, final = st', external = ext\<rparr>
      | (Inl x, st', ext) \<Rightarrow> \<lparr>spoken = msg_transfer_failed, final = st', external = ext\<rparr>)"

section \<open>check_business_hours (tools/transfer.ts)\<close>

text \<open>\<open>a < b\<close> on strings compares them unit by unit.\<close>

fun str_less :: "string \<Rightarrow> string \<Rightarrow> bool" where
  "str_less [] [] = False"
| "str_less [] (y # ys) = True"
| "str_less (x # xs) [] = False"
| "str_less (x # xs) (y # ys) =
     (if (of_char x :: nat) < of_char y then True
      else if (of_char x :: nat) = of_char y then str_less xs ys
      else False)"

fun split_on :: "char \<Rightarrow> string \<Rightarrow> string list" where
  "split_on c [] = [[]]"
| "split_on c (x # xs) =
     (if x = c then [] # split_on c xs
      else (case split_on c xs of [] \<Rightarrow> [[x]] | p # ps \<Rightarrow> (x # p) # ps))"

definition digit_of :: "nat \<Rightarrow> char \<Rightarrow> nat option" where
  "digit_of radix c =
     (let n = (of_char c :: nat);
          v = (if 48 \<le> n \<and> n \<le> 57 then Some (n - 48)
               else if 97 \<le> n \<and> n \<le> 122 then Some (n - 87)
               else if 65 \<le> n \<and> n \<le> 90 then Some (n - 55)
               else None)
      in case v of None \<Rightarrow> None | Some d \<Rightarrow> (if d < radix then Some d else None))"

fun read_digits :: "nat \<Rightarrow> string \<Rightarrow> nat option \<Rightarrow> nat option" where
  "read_digits radix [] acc = acc"
| "read_digits radix (c # cs) acc =
     (case digit_of radix c of
        None \<Rightarrow> acc
      | Some d \<Rightarrow> read_digits radix cs (Some ((case acc of None \<Rightarrow> 0 | Some v \<Rightarrow> v) * radix + d)))"

text \<open>
  \<open>parseInt\<close> without a radix: leading white space, a sign, an optional \<open>0x\<close>, then the
  longest run of digits; \<open>None\<close> is \<open>NaN\<close>.
\<close>

definition parseInt :: "string \<Rightarrow> int option" where
  "parseInt s =
     (let t = dropWhile is_space s;
          neg = (take 1 t = ''-'');
          u = (if take 1 t = ''-'' \<or> take 1 t = ''+'' then drop 1 t else t);
          hex = (take 2 u = ''0x'' \<or> take 2 u = ''0X'')
      in case read_digits (if hex then 16 else 10) (if hex then drop 2 u else u) None of
           None \<Rightarrow> None
         | Some n \<Rightarrow> Some (if neg then - int n else int n))"

fun show_nat :: "nat \<Rightarrow> string" where
  "show_nat n = (if n < 10 then [char_of (48 + n)] else show_nat (n div 10) @ [char_of (48 + n mod 10)])"

definition show_int :: "int \<Rightarrow> string" where
  "show_int i = (if i < 0 then ''-'' @ show_nat (nat (- i)) else show_nat (nat i))"

text \<open>The remainder of JavaScript takes the sign of the dividend.\<close>

definition js_rem :: "int \<Rightarrow> int \<Rightarrow> int" where
  "js_rem a b = sgn a * (\<bar>a\<bar> mod \<bar>b\<bar>)"

definition formatTime :: "string \<Rightarrow> string" where
  "formatTime t =
     (case split_on CHR '':'' t of
        [] \<Rightarrow> []
      | hours # rest \<Rightarrow>
          (let minutes = (case rest of [] \<Rightarrow> None | m # ms \<Rightarrow> Some m);
               hour = parseInt hours;
               ampm = (case hour of None \<Rightarrow> ''AM'' | Some h \<Rightarrow> if h \<ge> 12 then ''PM'' else ''AM'');
               hour12 = (case hour of None \<Rightarrow> 12
                         | Some h \<Rightarrow> if js_rem h 12 = 0 then 12 else js_rem h 12)
           in show_int hour12 @ '':'' @ interpolate minutes @ '' '' @ ampm))"

text \<open>
  \<open>toLocaleDateString(locale, {weekday, timeZone})\<close>. The option \<open>weekday\<close> of
  \<open>Intl.DateTimeFormat\<close> admits the values \<open>narrow\<close>, \<open>short\<close> and \<open>long\<close>; any other
  value, like an unknown time zone, is a RangeError.
\<close>

definition toLocaleDateString :: "env \<Rightarrow> string \<Rightarrow> string \<Rightarrow> instant \<Rightarrow> exn + string" where
  "toLocaleDateString e weekday tz t =
     (if weekday \<in> set [''narrow'', ''short'', ''long''] then
        (case weekdayName e weekday tz t of None \<Rightarrow> Inl RangeError | Some d \<Rightarrow> Inr d)
      else Inl RangeError)"

definition toLocaleTimeString :: "env \<Rightarrow> string \<Rightarrow> instant \<Rightarrow> exn + string" where
  "toLocaleTimeString e tz t = (case wallTime e tz t of None \<Rightarrow> Inl RangeError | Some s \<Rightarrow> Inr s)"

definition msg_generic_hours :: string where
  "msg_generic_hours = ''Our team is available Monday through Friday, 9 AM to 5 PM local time.''"

definition msg_closed_today :: string where
  "msg_closed_today =
     ''Our office is closed today. We'll be happy to help you during our regular business hours. Would you like to leave a message or schedule a callback?''"

definition msg_open_until :: "string \<Rightarrow> string" where
  "msg_open_until c =
     ''Our office is currently open until '' @ formatTime c @
     ''. I can transfer you to a team member if needed.''"

definition msg_closed_now :: "string \<Rightarrow> string \<Rightarrow> string \<Rightarrow> string" where
  "msg_closed_now opn c day =
     ''Our office is currently closed. We're open '' @ formatTime opn @ '' to '' @ formatTime c @
     '' '' @ day @ ''. Would you like to schedule a callback or leave a message?''"

definition msg_hours_fallback :: string where
  "msg_hours_fallback =
     ''I can help you schedule a callback with our team. What time works best for you?''"

definition check_business_hours_try :: "env \<Rightarrow> tool_context \<Rightarrow> store \<Rightarrow> exn + string" where
  "check_business_hours_try e ctx st =
     (case getBusiness e st (businessId ctx) of
        Inl x \<Rightarrow> Inl x
      | Inr None \<Rightarrow> Inr msg_generic_hours
      | Inr (Some b) \<Rightarrow>
          (case business_hours b of
             None \<Rightarrow> Inr msg_generic_hours
           | Some hrs \<Rightarrow>
               (let tz = js_or_str (timezone b) ''America/New_York'' in
                case toLocaleDateString e ''lowercase'' tz (clock e) of
                  Inl x \<Rightarrow> Inl x
                | Inr currentDay \<Rightarrow>
                    (case toLocaleTimeString e tz (clock e) of
                       Inl x \<Rightarrow> Inl x
                     | Inr currentTime \<Rightarrow>
                         (case map_of hrs currentDay of
                            None \<Rightarrow> Inr msg_closed_today
                          | Some todayHours \<Rightarrow>
                              (if \<not> str_less currentTime (opens todayHours) \<and>
                                  str_less currentTime (closes todayHours)
                               then Inr (msg_open_until (closes todayHours))
                               else Inr (msg_closed_now (opens todayHours) (closes todayHours)
                                           currentDay)))))))"

definition check_business_hours :: "env \<Rightarrow> tool_context \<Rightarrow> store \<Rightarrow> tool_result" where
  "check_business_hours e ctx st =
     (case check_business_hours_try e ctx st of
        Inr s \<Rightarrow> \<lparr>spoken = s, final = st, external = []\<rparr>
      | Inl x \<Rightarrow> \<lparr>spoken = msg_hours_fallback, final = st, external = []\<rparr>)"

section \<open>The agent entry and the writers of the call status (agent.ts, the API server)\<close>

datatype session_action =
    Session_constructed
  | Shutdown_callback_added
  | Session_started
  | Room_connected

definition json_field :: "json_value \<Rightarrow> string \<Rightarrow> string option" where
  "json_field v k =
     (case v of
        JObject kvs \<Rightarrow> (case map_of kvs k of None \<Rightarrow> None | Some x \<Rightarrow> x)
      | JNull \<Rightarrow> None
      | JOther \<Rightarrow> None)"

text \<open>The last statement of \<open>entry\<close>: the call is marked as in progress and answered.\<close>

definition session_start_update :: "env \<Rightarrow> string \<Rightarrow> store \<Rightarrow> (exn + call) \<times> store" where
  "session_start_update e cid st =
     updateCall e st cid (\<lambda>c. c\<lparr>status := In_progress, answered_at := Some (clock e)\<rparr>)"

text \<open>
  \<open>entry\<close> logs what it catches and throws it again, so its result is the result of the
  body. The actions on the session are listed in the order they happen.
\<close>

definition entry :: "env \<Rightarrow> string option \<Rightarrow> store \<Rightarrow> (exn + unit) \<times> store \<times> session_action list" where
  "entry e metadata st =
     (case jsonParse e (js_or_str metadata ''{}'') of
        None \<Rightarrow> (Inl SyntaxError, st, [])
      | Some JNull \<Rightarrow> (Inl TypeError, st, [])
      | Some roomMetadata \<Rightarrow>
          (if truthy (json_field roomMetadata ''businessId'') \<and>
              truthy (json_field roomMetadata ''callId'') then
             (case getBusiness e st (js_or_str (json_field roomMetadata ''businessId'') []) of
                Inl x \<Rightarrow> (Inl x, st, [])
              | Inr None \<Rightarrow> (Inl (Error ''Business not found''), st, [])
              | Inr (Some b) \<Rightarrow>
                  (case sessionConstruct e of
                     Throws \<Rightarrow> (Inl Rejected, st, [])
                   | Returns u \<Rightarrow>
                       (case sessionStart e of
                          Throws \<Rightarrow> (Inl Rejected, st, [Session_constructed, Shutdown_callback_added])
                        | Returns u \<Rightarrow>
                            (case roomConnect e of
                               Throws \<Rightarrow>
                                 (Inl Rejected, st,
                                  [Session_constructed, Shutdown_callback_added, Session_started])
                             | Returns u \<Rightarrow>
                                 (case session_start_update e
                                         (js_or_str (json_field roomMetadata ''callId'') []) st of
                                    (Inl x, st1) \<Rightarrow>
                                      (Inl x, st1,
                                       [Session_constructed, Shutdown_callback_added,
                                        Session_started, Room_connected])
                                  | (Inr c, st1) \<Rightarrow>
                                      (Inr (), st1,
                                       [Session_constructed, Shutdown_callback_added,
                                        Session_started, Room_connected]))))))
           else (Inl (Error ''Missing businessId or callId in room metadata''), st, [])))"

text \<open>
  \<open>updateFinalCallStats\<close>, the shutdown callback: it returns when the call is not found,
  and logs and swallows whatever is thrown.
\<close>

definition updateFinalCallStats :: "env \<Rightarrow> string \<Rightarrow> store \<Rightarrow> store" where
  "updateFinalCallStats e cid st =
     (case getCall e st cid of
        Inl x \<Rightarrow> st
      | Inr None \<Rightarrow> st
      | Inr (Some cl) \<Rightarrow>
          snd (updateCall e st cid
                 (\<lambda>c. c\<lparr>status := Call_completed, ended_at := Some (clock e),
                        duration_seconds := Some ((clock e - started_at cl) div 1000)\<rparr>)))"

text \<open>
  The handler of \<open>POST /api/twilio/status\<close>. The call is the first row with the telephony
  identifier; the handler always answers 200, so only the store is of interest.
\<close>

definition status_updates :: "env \<Rightarrow> string \<Rightarrow> string option \<Rightarrow> call \<Rightarrow> call" where
  "status_updates e callStatus callDuration c =
     (if callStatus \<in> set [''completed'', ''failed'', ''busy'', ''no-answer'']
      then c\<lparr>twilio_status := Some callStatus, ended_at := Some (clock e),
             status := (if callStatus = ''completed'' then Call_completed else Failed),
             duration_seconds :=
               (if truthy callDuration then parseInt (js_or_str callDuration [])
                else duration_seconds c)\<rparr>
      else c\<lparr>twilio_status := Some callStatus\<rparr>)"

definition twilio_status_callback :: "env \<Rightarrow> string \<Rightarrow> string \<Rightarrow> string option \<Rightarrow> store \<Rightarrow> store" where
  "twilio_status_callback e callSid callStatus callDuration st =
     (case net e Select_calls_by_sid of
        Rejects \<Rightarrow> st
      | Errors \<Rightarrow> st
      | Up \<Rightarrow>
          (case take 1 (filter (\<lambda>c. twilio_call_sid c = Some callSid) (calls st)) of
             [] \<Rightarrow> st
           | cl # rest \<Rightarrow>
               (case updateCall e st (c_id cl) (status_updates e callStatus callDuration) of
                  (Inl x, st1) \<Rightarrow> st1
                | (Inr c, st1) \<Rightarrow>
                    snd (logCallEvent e st1 (c_id cl) ''status_update''
                           ([(''status'', Str callStatus)] @ opt_field ''duration'' callDuration)))))"

text \<open>
  The three writers of the status of a call, and a run of them in some order, each in its
  own surroundings.
\<close>

datatype status_op =
    Session_start string
  | Status_callback string string "string option"
  | Shutdown string

fun apply_status_op :: "env \<Rightarrow> status_op \<Rightarrow> store \<Rightarrow> store" where
  "apply_status_op e (Session_start cid) st = snd (session_start_update e cid st)"
| "apply_status_op e (Status_callback sid cs dur) st = twilio_status_callback e sid cs dur st"
| "apply_status_op e (Shutdown cid) st = updateFinalCallStats e cid st"

fun run_status_ops :: "(env \<times> status_op) list \<Rightarrow> store \<Rightarrow> store" where
  "run_status_ops [] st = st"
| "run_status_ops ((e, op) # ops) st = run_status_ops ops (apply_status_op e op st)"

definition status_of :: "store \<Rightarrow> string \<Rightarrow> call_status option" where
  "status_of st cid = map_option status (find (\<lambda>c. c_id c = cid) (calls st))"

definition call_row :: "store \<Rightarrow> string \<Rightarrow> call option" where
  "call_row st cid = find (\<lambda>c. c_id c = cid) (calls st)"

section \<open>Concrete data, after the fixtures of the test suites\<close>

definition mockBusiness :: business where
  "mockBusiness =
     \<lparr>b_id = ''biz-1'', agent_voice = None,
      business_hours =
        Some [(''monday'', \<lparr>opens = ''09:00'', closes = ''17:00''\<rparr>),
              (''tuesday'', \<lparr>opens = ''09:00'', closes = ''17:00''\<rparr>),
              (''wednesday'', \<lparr>opens = ''09:00'', closes = ''17:00''\<rparr>),
              (''thursday'', \<lparr>opens = ''09:00'', closes = ''17:00''\<rparr>),
              (''friday'', \<lparr>opens = ''09:00'', closes = ''17:00''\<rparr>)],
      timezone = Some ''America/New_York'', google_calendar_connected = True,
      google_calendar_id = Some ''test@gmail.com'',
      hubspot_api_key = Some ''test-hubspot-key''\<rparr>"

definition mockPhoneNumber :: phone_number where
  "mockPhoneNumber = \<lparr>p_id = ''pn-1'', forward_to = Some ''+15559998888''\<rparr>"

definition mockCall :: call where
  "mockCall =
     \<lparr>c_id = ''call-1'', c_business_id = ''biz-1'', phone_number_id = Some ''pn-1'',
      caller_name = None, caller_email = None, twilio_call_sid = Some ''CA123'',
      twilio_status = Some ''in-progress'', started_at = 1793699940000, answered_at = None,
      ended_at = None, duration_seconds = None, status = In_progress, outcome = None,
      transferred_to_human = None, c_notes = None\<rparr>"

definition mockStore :: store where
  "mockStore =
     \<lparr>businesses = [mockBusiness], phone_numbers = [mockPhoneNumber], calls = [mockCall],
      leads = [], appointments = [], call_events = []\<rparr>"

text \<open>The room metadata \<^verbatim>\<open>{"callId":"call-1"}\<close>, which names no tenant.\<close>

definition metadataWithoutBusiness :: string where
  "metadataWithoutBusiness =
     ''{'' @ [CHR 0x22] @ ''callId'' @ [CHR 0x22] @ '':'' @ [CHR 0x22] @ ''call-1'' @ [CHR 0x22] @ ''}''"

text \<open>
  A process whose local time zone is UTC, at 2026-11-03 10:00:00 UTC, with the store
  reachable and every external service failing.
\<close>

definition mockEnv :: env where
  "mockEnv =
     \<lparr>clock = 1793700000000,
      dateParse = (\<lambda>s. if s = ''2099-01-01T14:00:00'' then Some 4070959200000
                       else if s = ''2000-01-01T10:00:00'' then Some 946720800000
                       else if s = ''2026-11-03T15:00:00'' then Some 1793718000000
                       else None),
      localeDate = (\<lambda>t. ''Thursday, January 1, 2099''),
      localeTime = (\<lambda>t. ''2:00 PM''),
      weekdayName = (\<lambda>style tz t. Some ''Tuesday''),
      wallTime = (\<lambda>tz t. Some ''05:00''),
      jsonParse = (\<lambda>s. if s = ''{}'' then Some (JObject [])
                       else if s = metadataWithoutBusiness
                       then Some (JObject [(''callId'', Some ''call-1'')])
                       else None),
      net = (\<lambda>r. Up),
      newId = ''row-1'',
      calendarInsert = Throws,
      hubspotFetch = Throws,
      twilioAccountSid = Some ''AC123'',
      twilioAuthToken = Some ''token'',
      twilioFetch = Throws,
      sessionConstruct = Returns (),
      sessionStart = Returns (),
      roomConnect = Returns ()\<rparr>"

definition mockContext :: tool_context where
  "mockContext =
     \<lparr>businessId = ''biz-1'', callId = ''call-1'', callerPhone = Some ''+15551234567'',
      twilioCallSid = Some ''CA123''\<rparr>"

definition mockAppointmentParams :: appointment_args where
  "mockAppointmentParams =
     \<lparr>date = ''2099-01-01'', time = ''14:00'', customer_name = ''John Doe'',
      customer_email = ''john@example.com'', customer_phone = None, purpose = None,
      arg_duration_minutes = None\<rparr>"

definition mockLeadParams :: lead_args where
  "mockLeadParams =
     \<lparr>name = ''Jane Smith'', email = None, phone = Some ''+15557778888'', company = None,
      interest_level = None, lead_notes = None\<rparr>"

definition mockTransferParams :: transfer_args where
  "mockTransferParams = \<lparr>reason = ''billing'', urgency = Some High, transfer_notes = None\<rparr>"

text \<open>The same surroundings with a CRM that answers and creates the contact \<open>hs-1\<close>.\<close>

definition crmUp :: env where
  "crmUp = mockEnv\<lparr>hubspotFetch := Returns \<lparr>ok = True, json_id = Returns (Some ''hs-1'')\<rparr>\<rparr>"

text \<open>The same surroundings with a carrier that accepts the redirect.\<close>

definition twilioUp :: env where
  "twilioUp = mockEnv\<lparr>twilioFetch := Returns \<lparr>ok = True, json_id = Throws\<rparr>\<rparr>"

text \<open>
  For the statement about runs of status writers: the status an operation writes (if
  any), whether an operation addresses the call with key \<open>cid\<close> in a store, and the
  status written last by a run that starts at \<open>s\<close>. The update at the start of the
  session and the finalization name the call by its key; a status callback addresses the
  call that the handler finds, the first row carrying the telephony identifier.
\<close>

fun written_status :: "status_op \<Rightarrow> call_status option" where
  "written_status (Session_start cid) = Some In_progress"
| "written_status (Status_callback sid cs dur) =
     (if cs \<in> set [''completed'', ''failed'', ''busy'', ''no-answer'']
      then Some (if cs = ''completed'' then Call_completed else Failed)
      else None)"
| "written_status (Shutdown cid) = Some Call_completed"

fun addresses :: "store \<Rightarrow> string \<Rightarrow> status_op \<Rightarrow> bool" where
  "addresses st cid (Session_start c) = (c = cid)"
| "addresses st cid (Status_callback s cs dur) =
     (map c_id (take 1 (filter (\<lambda>c. twilio_call_sid c = Some s) (calls st))) = [cid])"
| "addresses st cid (Shutdown c) = (c = cid)"

definition last_written :: "call_status \<Rightarrow> status_op list \<Rightarrow> call_status" where
  "last_written s ops = foldl (\<lambda>s op. case written_status op of None \<Rightarrow> s | Some w \<Rightarrow> w) s ops"

text \<open>The same surroundings with a calendar that creates the event and a meeting link.\<close>

definition calendarUp :: env where
  "calendarUp =
     mockEnv\<lparr>calendarInsert :=
               Returns \<lparr>event_id = Some ''evt-1'', hangoutLink = Some ''https://meet.google.com/abc''\<rparr>\<rparr>"

section \<open>Facts about the store client\<close>

lemmas mock_defs = mockEnv_def mockStore_def mockContext_def mockAppointmentParams_def
  mockBusiness_def mockCall_def mockPhoneNumber_def mockLeadParams_def mockTransferParams_def

lemma single_Some_iff: "single xs = Some x \<longleftrightarrow> xs = [x]"
  by (cases xs) (auto simp: single_def)

lemma find_single:
  assumes "single (filter P xs) = Some x"
  shows "find P xs = Some x"
proof -
  from assms have "filter P xs = [x]" by (simp add: single_Some_iff)
  then show ?thesis
    by (induction xs) (auto split: if_splits)
qed

lemma find_map_update:
  assumes "\<And>r. c_id (f r) = c_id r"
  shows "find (\<lambda>c. c_id c = cid) (map (\<lambda>r. if c_id r = cid then f r else r) xs)
         = map_option f (find (\<lambda>c. c_id c = cid) xs)"
  using assms by (induction xs) auto

lemma updateCall_throws:
  assumes "net e Update_call \<noteq> Up \<or> single (filter (\<lambda>c. c_id c = cid) (calls st)) = None"
  shows "\<exists>x. updateCall e st cid f = (Inl x, st)"
  using assms by (auto simp: updateCall_def split: link.splits)

lemma logCallEvent_cases:
  "(net e Insert_event = Rejects \<and> logCallEvent e st cid ty d = (Inl Rejected, st)) \<or>
   (net e Insert_event \<noteq> Rejects \<and> (\<exists>st'. logCallEvent e st cid ty d = (Inr (), st') \<and>
       calls st' = calls st \<and> appointments st' = appointments st \<and> leads st' = leads st))"
  by (cases "net e Insert_event") (simp_all add: logCallEvent_def)

section \<open>book_appointment\<close>

lemma calendar_event_dropped:
  assumes "\<not> (google_calendar_connected b \<and> truthy (google_calendar_id b)) \<or> calendarInsert e = Throws"
  shows "fst (calendar_event e b s d) = (None, None)"
  using assms by (auto simp: calendar_event_def split: option.splits outcome.splits)

lemma save_appointment_ok:
  assumes ins: "net e Insert_appointment = Up" "newId e \<notin> set (map a_id (appointments st))"
    and ev: "net e Insert_event \<noteq> Rejects"
    and up: "net e Update_call = Up" "single (filter (\<lambda>c. c_id c = callId ctx) (calls st)) = Some c"
  shows "\<exists>st'. save_appointment e ctx a t d evid link st = (Inr (msg_booked e t link (customer_email a)), st')
      \<and> appointments st' = appointments st @
           [\<lparr>a_id = newId e, a_business_id = businessId ctx, a_call_id = Some (callId ctx),
             title = js_or_str (purpose a) (''Meeting with '' @ customer_name a),
             description = purpose a, scheduled_at = t, duration_minutes = Some d,
             attendee_name = Some (customer_name a), attendee_email = Some (customer_email a),
             attendee_phone = js_or (customer_phone a) (callerPhone ctx),
             google_calendar_event_id = evid, google_meet_link = link,
             a_status = Some Scheduled\<rparr>]
      \<and> call_row st' (callId ctx) = Some (c\<lparr>outcome := Some ''appointment_booked''\<rparr>)"
proof -
  have f: "find (\<lambda>c. c_id c = callId ctx) (calls st) = Some c"
    using up(2) by (rule find_single)
  show ?thesis
  proof (cases "net e Insert_event")
    case Up
    then show ?thesis using ins up f
      by (simp add: save_appointment_def createAppointment_def logCallEvent_def updateCall_def
          call_row_def find_map_update Let_def)
  next
    case Errors
    then show ?thesis using ins up f
      by (simp add: save_appointment_def createAppointment_def logCallEvent_def updateCall_def
          call_row_def find_map_update Let_def)
  next
    case Rejects
    then show ?thesis using ev by simp
  qed
qed

text \<open>
  Claim C1, as the code has it. When the instant built from the date and the time is in
  the future, the tenant is found, the store accepts the new row, the audit insert does
  not reject and the update of the call succeeds, then one appointment row with status
  \<open>scheduled\<close> is appended and the outcome of the call is \<open>appointment_booked\<close>. This
  holds whether or not a calendar is connected and whatever the calendar answers; without
  a connected calendar, or when the calendar request throws, the row only lacks the event
  id and the meeting link.
\<close>

theorem book_appointment_future:
  assumes future: "dateParse e (date a @ ''T'' @ time a @ '':00'') = Some t" "clock e < t"
    and tenant: "getBusiness e st (businessId ctx) = Inr (Some b)"
    and ins: "net e Insert_appointment = Up" "newId e \<notin> set (map a_id (appointments st))"
    and ev: "net e Insert_event \<noteq> Rejects"
    and up: "net e Update_call = Up"
            "single (filter (\<lambda>c. c_id c = callId ctx) (calls st)) = Some c"
  shows "\<exists>row. appointments (final (book_appointment e ctx a st)) = appointments st @ [row]
           \<and> a_status row = Some Scheduled
           \<and> a_call_id row = Some (callId ctx)
           \<and> a_business_id row = businessId ctx
           \<and> scheduled_at row = t
           \<and> attendee_email row = Some (customer_email a)
           \<and> (\<not> (google_calendar_connected b \<and> truthy (google_calendar_id b)) \<or>
                calendarInsert e = Throws \<longrightarrow>
                google_meet_link row = None \<and> google_calendar_event_id row = None)
           \<and> spoken (book_appointment e ctx a st) =
                 msg_booked e t (google_meet_link row) (customer_email a)
           \<and> call_row (final (book_appointment e ctx a st)) (callId ctx) =
                 Some (c\<lparr>outcome := Some ''appointment_booked''\<rparr>)"
proof -
  define d where "d = (case arg_duration_minutes a of None \<Rightarrow> 30 | Some v \<Rightarrow> v)"
  obtain evid link ext where cal: "calendar_event e b (Some t) d = ((evid, link), ext)"
    by (metis prod.exhaust)
  from save_appointment_ok [OF ins ev up, of a t d evid link]
  obtain st' where sv: "save_appointment e ctx a t d evid link st =
        (Inr (msg_booked e t link (customer_email a)), st')"
    and ap: "appointments st' = appointments st @
           [\<lparr>a_id = newId e, a_business_id = businessId ctx, a_call_id = Some (callId ctx),
             title = js_or_str (purpose a) (''Meeting with '' @ customer_name a),
             description = purpose a, scheduled_at = t, duration_minutes = Some d,
             attendee_name = Some (customer_name a), attendee_email = Some (customer_email a),
             attendee_phone = js_or (customer_phone a) (callerPhone ctx),
             google_calendar_event_id = evid, google_meet_link = link,
             a_status = Some Scheduled\<rparr>]"
    and cr: "call_row st' (callId ctx) = Some (c\<lparr>outcome := Some ''appointment_booked''\<rparr>)"
    by blast
  have res: "book_appointment e ctx a st =
      \<lparr>spoken = msg_booked e t link (customer_email a), final = st', external = ext\<rparr>"
    using future tenant cal sv
    by (simp add: book_appointment_def book_appointment_try_def d_def [symmetric])
  have drop: "\<not> (google_calendar_connected b \<and> truthy (google_calendar_id b)) \<or>
                calendarInsert e = Throws \<longrightarrow> link = None \<and> evid = None"
    using calendar_event_dropped [of b e "Some t" d] cal by auto
  show ?thesis
    unfolding res using ap cr drop by simp
qed

text \<open>
  The theorem at the fixture, for a booking on 2099-01-01 at 14:00, three times: the
  calendar request throws, the tenant has no connected calendar, and the calendar creates
  the event. Each time the row is stored as scheduled and the call is marked as booked;
  only the third row carries a meeting link.
\<close>

theorem book_appointment_future_witness:
  "dateParse mockEnv (date mockAppointmentParams @ ''T'' @ time mockAppointmentParams @ '':00'')
     = Some 4070959200000 \<and>
   clock mockEnv < 4070959200000 \<and>
   calendarInsert mockEnv = Throws \<and>
   map a_status (appointments (final (book_appointment mockEnv mockContext mockAppointmentParams
      mockStore))) = [Some Scheduled] \<and>
   map google_meet_link (appointments (final (book_appointment mockEnv mockContext
      mockAppointmentParams mockStore))) = [None] \<and>
   map outcome (calls (final (book_appointment mockEnv mockContext mockAppointmentParams
      mockStore))) = [Some ''appointment_booked''] \<and>
   external (book_appointment mockEnv mockContext mockAppointmentParams mockStore)
     = [Calendar_insert ''test@gmail.com''] \<and>
   map a_status (appointments (final (book_appointment mockEnv mockContext mockAppointmentParams
      (mockStore\<lparr>businesses := [mockBusiness\<lparr>google_calendar_connected := False\<rparr>]\<rparr>))))
     = [Some Scheduled] \<and>
   map outcome (calls (final (book_appointment mockEnv mockContext mockAppointmentParams
      (mockStore\<lparr>businesses := [mockBusiness\<lparr>google_calendar_connected := False\<rparr>]\<rparr>))))
     = [Some ''appointment_booked''] \<and>
   external (book_appointment mockEnv mockContext mockAppointmentParams
      (mockStore\<lparr>businesses := [mockBusiness\<lparr>google_calendar_connected := False\<rparr>]\<rparr>)) = [] \<and>
   map a_status (appointments (final (book_appointment calendarUp mockContext
      mockAppointmentParams mockStore))) = [Some Scheduled] \<and>
   map google_meet_link (appointments (final (book_appointment calendarUp mockContext
      mockAppointmentParams mockStore))) = [Some ''https://meet.google.com/abc''] \<and>
   map outcome (calls (final (book_appointment calendarUp mockContext mockAppointmentParams
      mockStore))) = [Some ''appointment_booked'']"
  using book_appointment_future [of mockEnv mockAppointmentParams 4070959200000 mockStore
      mockContext mockBusiness mockCall]
    book_appointment_future [of mockEnv mockAppointmentParams 4070959200000
      "mockStore\<lparr>businesses := [mockBusiness\<lparr>google_calendar_connected := False\<rparr>]\<rparr>"
      mockContext "mockBusiness\<lparr>google_calendar_connected := False\<rparr>" mockCall]
    book_appointment_future [of calendarUp mockAppointmentParams 4070959200000 mockStore
      mockContext mockBusiness mockCall]
  by (simp add: calendarUp_def mock_defs book_appointment_def book_appointment_try_def
      getBusiness_def single_def calendar_event_def truthy_def time_in_range_def js_or_str_def
      js_or_def save_appointment_def createAppointment_def logCallEvent_def updateCall_def Let_def)

text \<open>
  Claim C1 as it is worded fails in three runs with a date in the future. Where the tenant
  of the context is not in the store, the tool answers with its apology, no appointment
  row exists afterwards and the outcome of the call is still unset. Where the store
  answers the insert of the appointment with an error, the same happens. Where the store
  answers the update of the call with an error, the row exists but the outcome of the call
  is still unset.
\<close>

theorem book_appointment_unknown_tenant_counterexample:
  "dateParse mockEnv (date mockAppointmentParams @ ''T'' @ time mockAppointmentParams @ '':00'')
     = Some 4070959200000 \<and>
   clock mockEnv < 4070959200000 \<and>
   spoken (book_appointment mockEnv mockContext mockAppointmentParams
             (mockStore\<lparr>businesses := []\<rparr>)) = msg_booking_failed \<and>
   appointments (final (book_appointment mockEnv mockContext mockAppointmentParams
             (mockStore\<lparr>businesses := []\<rparr>))) = [] \<and>
   map outcome (calls (final (book_appointment mockEnv mockContext mockAppointmentParams
             (mockStore\<lparr>businesses := []\<rparr>)))) = [None] \<and>
   spoken (book_appointment (mockEnv\<lparr>net := (\<lambda>r. if r = Insert_appointment then Errors else Up)\<rparr>)
             mockContext mockAppointmentParams mockStore) = msg_booking_failed \<and>
   appointments (final (book_appointment
             (mockEnv\<lparr>net := (\<lambda>r. if r = Insert_appointment then Errors else Up)\<rparr>)
             mockContext mockAppointmentParams mockStore)) = [] \<and>
   map outcome (calls (final (book_appointment
             (mockEnv\<lparr>net := (\<lambda>r. if r = Insert_appointment then Errors else Up)\<rparr>)
             mockContext mockAppointmentParams mockStore))) = [None] \<and>
   map a_status (appointments (final (book_appointment
             (mockEnv\<lparr>net := (\<lambda>r. if r = Update_call then Errors else Up)\<rparr>)
             mockContext mockAppointmentParams mockStore))) = [Some Scheduled] \<and>
   map outcome (calls (final (book_appointment
             (mockEnv\<lparr>net := (\<lambda>r. if r = Update_call then Errors else Up)\<rparr>)
             mockContext mockAppointmentParams mockStore))) = [None]"
  by (simp add: mock_defs book_appointment_def book_appointment_try_def
      getBusiness_def single_def calendar_event_def truthy_def time_in_range_def js_or_str_def
      js_or_def save_appointment_def createAppointment_def logCallEvent_def updateCall_def Let_def)

text \<open>
  Claim C2, as the code has it. The instant is what the engine's \<open>Date\<close> makes of
  \<open>date\<close>, \<open>T\<close>, \<open>time\<close> and \<open>:00\<close>, read in the local time zone of the process;
  the tenant is not consulted for it. Whenever that instant is strictly earlier than the
  clock, the tool answers that the date has passed, writes nothing to the store and calls
  no external service. The statement holds for every store, hence for every time zone a
  tenant may have configured.
\<close>

theorem book_appointment_past:
  assumes "dateParse e (date a @ ''T'' @ time a @ '':00'') = Some t" and "t < clock e"
  shows "spoken (book_appointment e ctx a st) = msg_date_passed \<and>
         final (book_appointment e ctx a st) = st \<and>
         external (book_appointment e ctx a st) = []"
  using assms by (simp add: book_appointment_def book_appointment_try_def)

text \<open>The theorem at the scenario of the specification: 2000-01-01 10:00.\<close>

theorem book_appointment_past_witness:
  "dateParse mockEnv
      (date (mockAppointmentParams\<lparr>date := ''2000-01-01'', time := ''10:00''\<rparr>) @ ''T'' @
       time (mockAppointmentParams\<lparr>date := ''2000-01-01'', time := ''10:00''\<rparr>) @ '':00'')
     = Some 946720800000 \<and>
   946720800000 < clock mockEnv \<and>
   spoken (book_appointment mockEnv mockContext
      (mockAppointmentParams\<lparr>date := ''2000-01-01'', time := ''10:00''\<rparr>) mockStore)
     = msg_date_passed \<and>
   final (book_appointment mockEnv mockContext
      (mockAppointmentParams\<lparr>date := ''2000-01-01'', time := ''10:00''\<rparr>) mockStore)
     = mockStore"
  using book_appointment_past [of mockEnv
      "mockAppointmentParams\<lparr>date := ''2000-01-01'', time := ''10:00''\<rparr>" 946720800000
      mockContext mockStore]
  by (simp add: mockEnv_def mockAppointmentParams_def)

text \<open>
  Claim C2 as it is worded fails in two ways. First, an instant equal to the clock is not
  strictly in the future, yet the comparison \<open>scheduledAt < new Date()\<close> lets it through
  and the appointment is stored. Second, the tenant's time zone plays no part: for a
  tenant in Tokyo (nine hours ahead of UTC) and a process running in UTC, 15:00 on
  2026-11-03 in the tenant's zone is 06:00 UTC, four hours before the clock, yet the tool
  reads 15:00 in the zone of the process, finds it in the future and stores it.
\<close>

theorem book_appointment_instant_counterexample:
  "dateParse (mockEnv\<lparr>clock := 4070959200000\<rparr>)
      (date mockAppointmentParams @ ''T'' @ time mockAppointmentParams @ '':00'')
     = Some 4070959200000 \<and>
   \<not> clock (mockEnv\<lparr>clock := 4070959200000\<rparr>) < 4070959200000 \<and>
   spoken (book_appointment (mockEnv\<lparr>clock := 4070959200000\<rparr>) mockContext
             mockAppointmentParams mockStore) \<noteq> msg_date_passed \<and>
   map scheduled_at (appointments (final (book_appointment (mockEnv\<lparr>clock := 4070959200000\<rparr>)
      mockContext mockAppointmentParams mockStore))) = [4070959200000] \<and>
   map timezone (businesses (mockStore\<lparr>businesses := [mockBusiness\<lparr>timezone := Some ''Asia/Tokyo''\<rparr>]\<rparr>))
     = [Some ''Asia/Tokyo''] \<and>
   dateParse mockEnv
      (date (mockAppointmentParams\<lparr>date := ''2026-11-03'', time := ''15:00''\<rparr>) @ ''T'' @
       time (mockAppointmentParams\<lparr>date := ''2026-11-03'', time := ''15:00''\<rparr>) @ '':00'')
     = Some 1793718000000 \<and>
   1793718000000 - 9 * 3600000 < clock mockEnv \<and>
   spoken (book_appointment mockEnv mockContext
             (mockAppointmentParams\<lparr>date := ''2026-11-03'', time := ''15:00''\<rparr>)
             (mockStore\<lparr>businesses := [mockBusiness\<lparr>timezone := Some ''Asia/Tokyo''\<rparr>]\<rparr>))
     \<noteq> msg_date_passed \<and>
   map scheduled_at (appointments (final (book_appointment mockEnv mockContext
             (mockAppointmentParams\<lparr>date := ''2026-11-03'', time := ''15:00''\<rparr>)
             (mockStore\<lparr>businesses := [mockBusiness\<lparr>timezone := Some ''Asia/Tokyo''\<rparr>]\<rparr>))))
     = [1793718000000]"
  by (simp add: mock_defs book_appointment_def book_appointment_try_def getBusiness_def single_def
      calendar_event_def truthy_def time_in_range_def js_or_str_def js_or_def save_appointment_def
      createAppointment_def logCallEvent_def updateCall_def msg_booked_def msg_date_passed_def Let_def)

text \<open>
  Claim C10. The tool is not atomic with respect to the store. Once the appointment row
  has been created (the instant passes the check, the tenant is found, the insert
  succeeds), a throw of one of the two later writes (the audit insert rejects, or the
  update of the call fails because the store refuses it or the call row is not there)
  makes the tool answer with its generic apology while the appointment row stays in the
  store.
\<close>

theorem book_appointment_not_atomic:
  assumes now: "dateParse e (date a @ ''T'' @ time a @ '':00'') = Some t" "\<not> t < clock e"
    and tenant: "getBusiness e st (businessId ctx) = Inr (Some b)"
    and ins: "net e Insert_appointment = Up" "newId e \<notin> set (map a_id (appointments st))"
    and later: "net e Insert_event = Rejects \<or> net e Update_call \<noteq> Up \<or>
                single (filter (\<lambda>c. c_id c = callId ctx) (calls st)) = None"
  shows "spoken (book_appointment e ctx a st) = msg_booking_failed \<and>
         (\<exists>row. appointments (final (book_appointment e ctx a st)) = appointments st @ [row]
            \<and> a_id row = newId e \<and> a_call_id row = Some (callId ctx)
            \<and> scheduled_at row = t \<and> a_status row = Some Scheduled)"
proof -
  define d where "d = (case arg_duration_minutes a of None \<Rightarrow> 30 | Some v \<Rightarrow> v)"
  obtain evid link ext where cal: "calendar_event e b (Some t) d = ((evid, link), ext)"
    by (metis prod.exhaust)
  define row where "row =
       \<lparr>a_id = newId e, a_business_id = businessId ctx, a_call_id = Some (callId ctx),
        title = js_or_str (purpose a) (''Meeting with '' @ customer_name a),
        description = purpose a, scheduled_at = t, duration_minutes = Some d,
        attendee_name = Some (customer_name a), attendee_email = Some (customer_email a),
        attendee_phone = js_or (customer_phone a) (callerPhone ctx),
        google_calendar_event_id = evid, google_meet_link = link,
        a_status = Some Scheduled\<rparr>"
  define st1 where "st1 = st\<lparr>appointments := appointments st @ [row]\<rparr>"
  have sv: "\<exists>x st'. save_appointment e ctx a t d evid link st = (Inl x, st') \<and>
                  appointments st' = appointments st @ [row]"
  proof (cases "net e Insert_event = Rejects")
    case True
    then show ?thesis using ins
      by (simp add: save_appointment_def createAppointment_def logCallEvent_def row_def Let_def)
  next
    case False
    with logCallEvent_cases obtain st2 where
      lg: "logCallEvent e st1 (callId ctx) ''appointment_booked''
             [(''appointment_id'', Str (newId e)), (''scheduled_at'', Num t),
              (''customer_name'', Str (customer_name a)),
              (''customer_email'', Str (customer_email a))] = (Inr (), st2)"
      and st2: "calls st2 = calls st1" "appointments st2 = appointments st1"
      by blast
    from False later have "net e Update_call \<noteq> Up \<or>
        single (filter (\<lambda>c. c_id c = callId ctx) (calls st2)) = None"
      by (simp add: st2 st1_def)
    from updateCall_throws [OF this] obtain x where
      "updateCall e st2 (callId ctx) (\<lambda>c. c\<lparr>outcome := Some ''appointment_booked''\<rparr>) = (Inl x, st2)"
      by blast
    then show ?thesis using ins lg st2
      by (simp add: save_appointment_def createAppointment_def row_def st1_def Let_def)
  qed
  then obtain x st' where sv': "save_appointment e ctx a t d evid link st = (Inl x, st')"
    and ap: "appointments st' = appointments st @ [row]" by blast
  have res: "book_appointment e ctx a st =
      \<lparr>spoken = msg_booking_failed, final = st', external = ext\<rparr>"
    using now tenant cal sv'
    by (simp add: book_appointment_def book_appointment_try_def d_def [symmetric])
  show ?thesis unfolding res using ap by (simp add: row_def)
qed

text \<open>
  The theorem at the fixture, with a store that answers the update of the call with an
  error: the caller hears the apology and the appointment for 2099-01-01 is stored.
\<close>

theorem book_appointment_not_atomic_witness:
  "net (mockEnv\<lparr>net := (\<lambda>r. if r = Update_call then Errors else Up)\<rparr>) Update_call = Errors \<and>
   net (mockEnv\<lparr>net := (\<lambda>r. if r = Update_call then Errors else Up)\<rparr>) Insert_appointment = Up \<and>
   spoken (book_appointment (mockEnv\<lparr>net := (\<lambda>r. if r = Update_call then Errors else Up)\<rparr>)
             mockContext mockAppointmentParams mockStore) = msg_booking_failed \<and>
   (\<exists>row. appointments (final (book_appointment
               (mockEnv\<lparr>net := (\<lambda>r. if r = Update_call then Errors else Up)\<rparr>)
               mockContext mockAppointmentParams mockStore)) = [row]
        \<and> a_id row = ''row-1'' \<and> scheduled_at row = 4070959200000
        \<and> a_status row = Some Scheduled)"
  using book_appointment_not_atomic
      [of "mockEnv\<lparr>net := (\<lambda>r. if r = Update_call then Errors else Up)\<rparr>"
          mockAppointmentParams 4070959200000 mockStore mockContext mockBusiness]
  by (auto simp add: mockEnv_def mockStore_def mockContext_def mockAppointmentParams_def
      getBusiness_def single_def mockBusiness_def)

section \<open>create_lead\<close>

text \<open>
  Claim C3. When the email argument, the phone argument and the caller's number of the
  context are all absent, the tool asks for contact information, the store is left as it
  was (no lead row, no other write) and no external service is called.
\<close>

theorem create_lead_without_contact:
  assumes "email a = None" and "phone a = None" and "callerPhone ctx = None"
  shows "spoken (create_lead e ctx a st) = msg_need_contact \<and>
         final (create_lead e ctx a st) = st \<and>
         external (create_lead e ctx a st) = []"
  using assms by (simp add: create_lead_def create_lead_try_def truthy_def)

text \<open>The theorem at the fixture, without a phone argument and without a caller number.\<close>

theorem create_lead_without_contact_witness:
  "email (mockLeadParams\<lparr>phone := None\<rparr>) = None \<and>
   phone (mockLeadParams\<lparr>phone := None\<rparr>) = None \<and>
   callerPhone (mockContext\<lparr>callerPhone := None\<rparr>) = None \<and>
   spoken (create_lead mockEnv (mockContext\<lparr>callerPhone := None\<rparr>)
             (mockLeadParams\<lparr>phone := None\<rparr>) mockStore) = msg_need_contact \<and>
   final (create_lead mockEnv (mockContext\<lparr>callerPhone := None\<rparr>)
             (mockLeadParams\<lparr>phone := None\<rparr>) mockStore) = mockStore \<and>
   external (create_lead mockEnv (mockContext\<lparr>callerPhone := None\<rparr>)
             (mockLeadParams\<lparr>phone := None\<rparr>) mockStore) = []"
  using create_lead_without_contact [of "mockLeadParams\<lparr>phone := None\<rparr>"
      "mockContext\<lparr>callerPhone := None\<rparr>" mockEnv mockStore]
  by (simp add: mockLeadParams_def mockContext_def)

lemma filter_fresh_append:
  assumes "k \<notin> set (map l_id xs)" and "l_id r = k"
  shows "filter (\<lambda>l. l_id l = k) (xs @ [r]) = [r]"
    and "map (\<lambda>x. if l_id x = k then f x else x) (xs @ [r]) = xs @ [f r]"
  using assms by (induction xs) auto

lemma hubspot_sync_failed:
  assumes "fst (createHubSpotContact e (js_or_str (hubspot_api_key b) [])) = Inl x"
  shows "fst (hubspot_sync e b ld st) = st"
  using assms by (cases "createHubSpotContact e (js_or_str (hubspot_api_key b) [])")
    (simp add: hubspot_sync_def)

lemma hubspot_sync_written:
  assumes key: "truthy (hubspot_api_key b)"
    and crm: "fst (createHubSpotContact e (js_or_str (hubspot_api_key b) [])) = Inr (Some i)"
    and upd: "net e Update_lead = Up"
    and fresh: "l_id ld \<notin> set (map l_id (leads st))"
  shows "fst (hubspot_sync e b ld (st\<lparr>leads := leads st @ [ld]\<rparr>)) =
           st\<lparr>leads := leads st @ [ld\<lparr>hubspot_contact_id := Some i, synced_at := Some (clock e)\<rparr>]\<rparr>"
  using key crm upd filter_fresh_append [OF fresh refl]
  by (cases "createHubSpotContact e (js_or_str (hubspot_api_key b) [])")
    (simp add: hubspot_sync_def updateLead_def single_def)

lemma hubspot_sync_calls: "calls (fst (hubspot_sync e b ld st)) = calls st"
  by (simp add: hubspot_sync_def updateLead_def
      split: prod.splits sum.splits link.splits option.splits)

lemma create_lead_succeeds:
  assumes contact: "truthy (email a) \<or> truthy (phone a) \<or> truthy (callerPhone ctx)"
    and tenant: "getBusiness e st (businessId ctx) = Inr (Some b)"
    and ins: "net e Insert_lead = Up" "newId e \<notin> set (map l_id (leads st))"
    and ev: "net e Insert_event \<noteq> Rejects"
    and up: "net e Update_call = Up"
            "single (filter (\<lambda>c. c_id c = callId ctx) (calls st)) = Some c"
    and ld: "ld = \<lparr>l_id = newId e, l_business_id = businessId ctx, l_call_id = Some (callId ctx),
                  l_name = Some (name a), l_email = email a,
                  l_phone = js_or (phone a) (callerPhone ctx), l_company = company a,
                  l_source = Some ''voice_call'', l_status = Some New,
                  l_interest_level = Some (case interest_level a of None \<Rightarrow> Medium | Some v \<Rightarrow> v),
                  hubspot_contact_id = None, synced_at = None, l_notes = lead_notes a\<rparr>"
  shows "spoken (create_lead e ctx a st) = msg_lead_saved a \<and>
         leads (final (create_lead e ctx a st)) =
           leads (fst (hubspot_sync e b ld (st\<lparr>leads := leads st @ [ld]\<rparr>))) \<and>
         call_row (final (create_lead e ctx a st)) (callId ctx) =
           Some (c\<lparr>outcome := Some ''lead_captured'', caller_name := Some (name a),
                   caller_email := (case email a of None \<Rightarrow> caller_email c | Some v \<Rightarrow> Some v)\<rparr>)"
proof -
  define st1 where "st1 = st\<lparr>leads := leads st @ [ld]\<rparr>"
  obtain st2 ext where hs: "hubspot_sync e b ld st1 = (st2, ext)"
    by (metis prod.exhaust)
  have c2: "calls st2 = calls st"
    using hubspot_sync_calls [of e b ld st1] hs by (simp add: st1_def)
  from ev logCallEvent_cases [of e st2 "callId ctx" "''lead_captured''"
      "[(''lead_id'', Str (l_id ld)), (''name'', Str (name a))] @
         opt_field ''email'' (email a) @ opt_field ''phone'' (phone a)"]
  obtain st3 where lg: "logCallEvent e st2 (callId ctx) ''lead_captured''
      ([(''lead_id'', Str (l_id ld)), (''name'', Str (name a))] @
         opt_field ''email'' (email a) @ opt_field ''phone'' (phone a)) = (Inr (), st3)"
    and s3: "calls st3 = calls st2" "leads st3 = leads st2"
    by blast
  have f: "find (\<lambda>c. c_id c = callId ctx) (calls st3) = Some c"
    using up(2) s3 c2 by (simp add: find_single)
  have sg: "single (filter (\<lambda>c. c_id c = callId ctx) (calls st3)) = Some c"
    using up(2) s3 c2 by simp
  have guard: "\<not> (\<not> truthy (email a) \<and> \<not> truthy (phone a) \<and> \<not> truthy (callerPhone ctx))"
    using contact by blast
  have cl: "createLead e st (ld\<lparr>l_id := []\<rparr>) = (Inr ld, st1)"
    using ins by (simp add: createLead_def st1_def ld Let_def)
  have row0: "ld\<lparr>l_id := []\<rparr> = \<lparr>l_id = [], l_business_id = businessId ctx, l_call_id = Some (callId ctx),
                  l_name = Some (name a), l_email = email a,
                  l_phone = js_or (phone a) (callerPhone ctx), l_company = company a,
                  l_source = Some ''voice_call'', l_status = Some New,
                  l_interest_level = Some (case interest_level a of None \<Rightarrow> Medium | Some v \<Rightarrow> v),
                  hubspot_contact_id = None, synced_at = None, l_notes = lead_notes a\<rparr>"
    by (simp add: ld)
  have res: "create_lead_try e ctx a st =
      (Inr (msg_lead_saved a),
       st3\<lparr>calls := map (\<lambda>r. if c_id r = callId ctx
              then r\<lparr>outcome := Some ''lead_captured'', caller_name := Some (name a),
                     caller_email := (case email a of None \<Rightarrow> caller_email r | Some v \<Rightarrow> Some v)\<rparr>
              else r) (calls st3)\<rparr>, ext)"
    unfolding create_lead_try_def
    using contact tenant cl [unfolded row0] hs lg up(1) sg
    by (auto simp add: updateCall_def)
  show ?thesis
    using res s3 hs f
    by (simp add: create_lead_def call_row_def find_map_update st1_def)
qed

text \<open>
  Claim C4, as the code has it. Take an invocation with at least one contact channel, a
  tenant that is found and has a CRM key, a store that accepts the lead, an audit insert
  that does not reject and an update of the call that succeeds. When the creation of the
  CRM contact throws, the lead row is stored all the same (without a remote id), the
  outcome of the call is \<open>lead_captured\<close> and the tool returns its confirmation, so
  nothing was thrown out of it. When the CRM answers with a contact id and the store
  accepts the update of the lead, the stored row carries that id and the time of the
  synchronisation.
\<close>

theorem create_lead_crm_sync:
  assumes contact: "truthy (email a) \<or> truthy (phone a) \<or> truthy (callerPhone ctx)"
    and tenant: "getBusiness e st (businessId ctx) = Inr (Some b)"
    and key: "truthy (hubspot_api_key b)"
    and ins: "net e Insert_lead = Up" "newId e \<notin> set (map l_id (leads st))"
    and ev: "net e Insert_event \<noteq> Rejects"
    and up: "net e Update_call = Up"
            "single (filter (\<lambda>c. c_id c = callId ctx) (calls st)) = Some c"
  shows "((\<exists>x. fst (createHubSpotContact e (js_or_str (hubspot_api_key b) [])) = Inl x) \<longrightarrow>
            (\<exists>row. leads (final (create_lead e ctx a st)) = leads st @ [row]
                \<and> l_id row = newId e \<and> l_call_id row = Some (callId ctx)
                \<and> l_name row = Some (name a) \<and> l_status row = Some New
                \<and> hubspot_contact_id row = None \<and> synced_at row = None)
          \<and> map_option outcome (call_row (final (create_lead e ctx a st)) (callId ctx))
               = Some (Some ''lead_captured'')
          \<and> spoken (create_lead e ctx a st) = msg_lead_saved a)
       \<and> (\<forall>i. fst (createHubSpotContact e (js_or_str (hubspot_api_key b) [])) = Inr (Some i) \<and>
              net e Update_lead = Up \<longrightarrow>
            (\<exists>row. leads (final (create_lead e ctx a st)) = leads st @ [row]
                \<and> l_id row = newId e \<and> l_call_id row = Some (callId ctx)
                \<and> l_name row = Some (name a) \<and> l_status row = Some New
                \<and> hubspot_contact_id row = Some i \<and> synced_at row = Some (clock e))
          \<and> map_option outcome (call_row (final (create_lead e ctx a st)) (callId ctx))
               = Some (Some ''lead_captured'')
          \<and> spoken (create_lead e ctx a st) = msg_lead_saved a)"
proof -
  define ld where "ld = \<lparr>l_id = newId e, l_business_id = businessId ctx, l_call_id = Some (callId ctx),
                  l_name = Some (name a), l_email = email a,
                  l_phone = js_or (phone a) (callerPhone ctx), l_company = company a,
                  l_source = Some ''voice_call'', l_status = Some New,
                  l_interest_level = Some (case interest_level a of None \<Rightarrow> Medium | Some v \<Rightarrow> v),
                  hubspot_contact_id = None, synced_at = None, l_notes = lead_notes a\<rparr>"
  note ok = create_lead_succeeds [OF contact tenant ins ev up ld_def]
  have fresh: "l_id ld \<notin> set (map l_id (leads st))"
    using ins(2) by (simp add: ld_def)
  have thrown: "leads (final (create_lead e ctx a st)) = leads st @ [ld]"
    if "fst (createHubSpotContact e (js_or_str (hubspot_api_key b) [])) = Inl x" for x
    using ok hubspot_sync_failed [OF that] by simp
  have synced: "leads (final (create_lead e ctx a st)) =
        leads st @ [ld\<lparr>hubspot_contact_id := Some i, synced_at := Some (clock e)\<rparr>]"
    if "fst (createHubSpotContact e (js_or_str (hubspot_api_key b) [])) = Inr (Some i)"
      and "net e Update_lead = Up" for i
    using ok hubspot_sync_written [OF key that fresh] by simp
  have A: "\<exists>row. leads (final (create_lead e ctx a st)) = leads st @ [row]
                \<and> l_id row = newId e \<and> l_call_id row = Some (callId ctx)
                \<and> l_name row = Some (name a) \<and> l_status row = Some New
                \<and> hubspot_contact_id row = None \<and> synced_at row = None"
    if "fst (createHubSpotContact e (js_or_str (hubspot_api_key b) [])) = Inl x" for x
    using thrown [OF that] by (simp add: ld_def)
  have B: "\<exists>row. leads (final (create_lead e ctx a st)) = leads st @ [row]
                \<and> l_id row = newId e \<and> l_call_id row = Some (callId ctx)
                \<and> l_name row = Some (name a) \<and> l_status row = Some New
                \<and> hubspot_contact_id row = Some i \<and> synced_at row = Some (clock e)"
    if "fst (createHubSpotContact e (js_or_str (hubspot_api_key b) [])) = Inr (Some i)"
      and "net e Update_lead = Up" for i
    using synced [OF that] by (simp add: ld_def)
  have out: "map_option outcome (call_row (final (create_lead e ctx a st)) (callId ctx))
               = Some (Some ''lead_captured'')"
    using ok by simp
  show ?thesis
    using A B out ok by blast
qed

text \<open>
  The theorem at the fixture, once with the CRM request failing and once with a CRM that
  creates the contact \<open>hs-1\<close>.
\<close>

theorem create_lead_crm_sync_witness:
  "fst (createHubSpotContact mockEnv ''test-hubspot-key'') = Inl Rejected \<and>
   (\<exists>row. leads (final (create_lead mockEnv mockContext mockLeadParams mockStore)) = [row]
       \<and> l_id row = ''row-1''
       \<and> hubspot_contact_id row = None \<and> synced_at row = None) \<and>
   map_option outcome (call_row (final (create_lead mockEnv mockContext mockLeadParams mockStore))
      ''call-1'') = Some (Some ''lead_captured'') \<and>
   spoken (create_lead mockEnv mockContext mockLeadParams mockStore) = msg_lead_saved mockLeadParams \<and>
   fst (createHubSpotContact crmUp ''test-hubspot-key'') = Inr (Some ''hs-1'') \<and>
   (\<exists>row. leads (final (create_lead crmUp mockContext mockLeadParams mockStore)) = [row]
       \<and> l_id row = ''row-1''
       \<and> hubspot_contact_id row = Some ''hs-1'' \<and> synced_at row = Some 1793700000000) \<and>
   map_option outcome (call_row (final (create_lead crmUp mockContext mockLeadParams mockStore))
      ''call-1'') = Some (Some ''lead_captured'')"
  using create_lead_crm_sync [of mockLeadParams mockContext mockEnv mockStore mockBusiness mockCall]
    create_lead_crm_sync [of mockLeadParams mockContext crmUp mockStore mockBusiness mockCall]
  by (auto simp add: crmUp_def mockEnv_def mockStore_def mockContext_def mockLeadParams_def
      getBusiness_def single_def mockBusiness_def mockCall_def truthy_def js_or_str_def js_or_def
      createHubSpotContact_def)

text \<open>
  Claim C4 as it is worded fails when a later write fails. With the CRM request throwing
  and the store answering the update of the call with an error, the lead row exists but
  the outcome of the call stays unset and the caller hears the apology. With the CRM
  answering and the store refusing the update of the lead, the tool confirms the capture
  but neither the remote id nor the time is on the lead row.
\<close>

theorem create_lead_later_write_counterexample:
  "truthy (hubspot_api_key mockBusiness) \<and>
   fst (createHubSpotContact (mockEnv\<lparr>net := (\<lambda>r. if r = Update_call then Errors else Up)\<rparr>)
          ''test-hubspot-key'') = Inl Rejected \<and>
   spoken (create_lead (mockEnv\<lparr>net := (\<lambda>r. if r = Update_call then Errors else Up)\<rparr>)
             mockContext mockLeadParams mockStore) = msg_lead_failed \<and>
   map l_id (leads (final (create_lead (mockEnv\<lparr>net := (\<lambda>r. if r = Update_call then Errors else Up)\<rparr>)
             mockContext mockLeadParams mockStore))) = [''row-1''] \<and>
   map outcome (calls (final (create_lead (mockEnv\<lparr>net := (\<lambda>r. if r = Update_call then Errors else Up)\<rparr>)
             mockContext mockLeadParams mockStore))) = [None] \<and>
   fst (createHubSpotContact (crmUp\<lparr>net := (\<lambda>r. if r = Update_lead then Errors else Up)\<rparr>)
          ''test-hubspot-key'') = Inr (Some ''hs-1'') \<and>
   spoken (create_lead (crmUp\<lparr>net := (\<lambda>r. if r = Update_lead then Errors else Up)\<rparr>)
             mockContext mockLeadParams mockStore) = msg_lead_saved mockLeadParams \<and>
   map hubspot_contact_id (leads (final (create_lead
             (crmUp\<lparr>net := (\<lambda>r. if r = Update_lead then Errors else Up)\<rparr>)
             mockContext mockLeadParams mockStore))) = [None] \<and>
   map synced_at (leads (final (create_lead
             (crmUp\<lparr>net := (\<lambda>r. if r = Update_lead then Errors else Up)\<rparr>)
             mockContext mockLeadParams mockStore))) = [None]"
  by (simp add: crmUp_def mock_defs create_lead_def create_lead_try_def getBusiness_def single_def
      truthy_def js_or_str_def js_or_def createLead_def hubspot_sync_def createHubSpotContact_def
      updateLead_def logCallEvent_def updateCall_def opt_field_def Let_def)

section \<open>transfer_to_human\<close>

lemma single_filter_mem:
  assumes "single (filter P xs) = Some x"
  shows "x \<in> set xs \<and> P x"
proof -
  from assms have "filter P xs = [x]" by (simp add: single_Some_iff)
  then have "x \<in> set (filter P xs)" by simp
  then show ?thesis by simp
qed

lemma getCall_found:
  assumes "getCall e st cid = Inr (Some c)"
  shows "c \<in> set (calls st) \<and> c_id c = cid \<and> net e Select_call = Up \<and>
         single (filter (\<lambda>c. c_id c = cid) (calls st)) = Some c"
  using assms single_filter_mem [of "\<lambda>c. c_id c = cid" "calls st" c]
  by (auto simp: getCall_def split: link.splits)

lemma selectPhoneNumber_found:
  assumes "selectPhoneNumber e st pid = Inr (Some p)"
  shows "p \<in> set (phone_numbers st) \<and> p_id p = pid"
  using assms single_filter_mem [of "\<lambda>p. p_id p = pid" "phone_numbers st" p]
  by (auto simp: selectPhoneNumber_def split: link.splits)

lemma truthy_Some: "truthy v \<Longrightarrow> v = Some (js_or_str v [])"
  by (cases v) (auto simp: truthy_def js_or_str_def)

lemma transfer_try_cases:
  "(\<exists>x. transfer_to_human_try e ctx a st = (Inl x, st, [])) \<or>
   (\<exists>b c ph. getBusiness e st (businessId ctx) = Inr (Some b) \<and>
      getCall e st (callId ctx) = Inr (Some c) \<and> truthy (phone_number_id c) \<and>
      selectPhoneNumber e st (js_or_str (phone_number_id c) []) = Inr ph \<and>
      transfer_to_human_try e ctx a st =
        (if \<not> truthy (case ph of None \<Rightarrow> None | Some p \<Rightarrow> forward_to p)
         then (Inr msg_no_transfer_number, st, [])
         else transfer_with_number e ctx a
                (js_or_str (case ph of None \<Rightarrow> None | Some p \<Rightarrow> forward_to p) []) st))"
  by (auto simp add: transfer_to_human_try_def Let_def split: sum.splits option.splits)

lemma transfer_try_resolved:
  assumes "getBusiness e st (businessId ctx) = Inr (Some b)"
    and "getCall e st (callId ctx) = Inr (Some c)" and "truthy (phone_number_id c)"
    and "selectPhoneNumber e st (js_or_str (phone_number_id c) []) = Inr ph"
  shows "transfer_to_human_try e ctx a st =
        (if \<not> truthy (case ph of None \<Rightarrow> None | Some p \<Rightarrow> forward_to p)
         then (Inr msg_no_transfer_number, st, [])
         else transfer_with_number e ctx a
                (js_or_str (case ph of None \<Rightarrow> None | Some p \<Rightarrow> forward_to p) []) st)"
  using assms by (simp add: transfer_to_human_try_def Let_def)

lemma selectPhoneNumber_answers:
  assumes "net e Select_phone_number \<noteq> Rejects"
  shows "\<exists>ph. selectPhoneNumber e st pid = Inr ph"
  using assms by (cases "net e Select_phone_number") (simp_all add: selectPhoneNumber_def)

lemmas transfer_defs = transfer_to_human_def transfer_to_human_try_def transfer_with_number_def
  initiateTransferViaTwilio_def getBusiness_def getCall_def selectPhoneNumber_def single_def
  updateCall_def logCallEvent_def truthy_def js_or_str_def opt_field_def level_name_def Let_def

text \<open>
  Claim C5. Suppose that every phone-number row the call of the context points to has no
  forwarding number. Then the tool leaves the store as it was, so the flag
  \<open>transferred_to_human\<close> is not set, it makes no request to the carrier, and it answers
  with one of its two follow-up messages: the one for a missing forwarding number, or the
  apology of the catch when the tenant, the call or its phone number cannot be read. When
  the tenant and the call are found and the phone number can be queried, the message is
  the one for a missing forwarding number.
\<close>

theorem transfer_without_forwarding_number:
  assumes none: "\<forall>c\<in>set (calls st). \<forall>p\<in>set (phone_numbers st).
             c_id c = callId ctx \<and> phone_number_id c = Some (p_id p) \<longrightarrow> \<not> truthy (forward_to p)"
  shows "final (transfer_to_human e ctx a st) = st \<and>
         external (transfer_to_human e ctx a st) = [] \<and>
         (spoken (transfer_to_human e ctx a st) = msg_no_transfer_number \<or>
          spoken (transfer_to_human e ctx a st) = msg_transfer_failed) \<and>
         (\<forall>b c. getBusiness e st (businessId ctx) = Inr (Some b) \<and>
                getCall e st (callId ctx) = Inr (Some c) \<and> truthy (phone_number_id c) \<and>
                net e Select_phone_number \<noteq> Rejects \<longrightarrow>
                spoken (transfer_to_human e ctx a st) = msg_no_transfer_number)"
proof -
  have no_number: "\<not> truthy (case ph of None \<Rightarrow> None | Some p \<Rightarrow> forward_to p)"
    if c: "getCall e st (callId ctx) = Inr (Some c)" and t: "truthy (phone_number_id c)"
      and s: "selectPhoneNumber e st (js_or_str (phone_number_id c) []) = Inr ph" for c ph
  proof (cases ph)
    case None
    then show ?thesis by (simp add: truthy_def)
  next
    case (Some p)
    from getCall_found [OF c] have 1: "c \<in> set (calls st)" "c_id c = callId ctx" by auto
    from selectPhoneNumber_found [OF s [unfolded Some]]
    have 2: "p \<in> set (phone_numbers st)" "p_id p = js_or_str (phone_number_id c) []" by auto
    from truthy_Some [OF t] 2 have "phone_number_id c = Some (p_id p)" by simp
    with none 1 2 have "\<not> truthy (forward_to p)" by blast
    then show ?thesis by (simp add: Some)
  qed
  have body: "(\<exists>x. transfer_to_human_try e ctx a st = (Inl x, st, [])) \<or>
              transfer_to_human_try e ctx a st = (Inr msg_no_transfer_number, st, [])"
    using transfer_try_cases [of e ctx a st] no_number by fastforce
  have exact: "transfer_to_human_try e ctx a st = (Inr msg_no_transfer_number, st, [])"
    if b: "getBusiness e st (businessId ctx) = Inr (Some b)"
      and c: "getCall e st (callId ctx) = Inr (Some c)" and t: "truthy (phone_number_id c)"
      and n: "net e Select_phone_number \<noteq> Rejects" for b c
  proof -
    from selectPhoneNumber_answers [OF n] obtain ph where
      s: "selectPhoneNumber e st (js_or_str (phone_number_id c) []) = Inr ph" by blast
    from transfer_try_resolved [OF b c t s] no_number [OF c t s] show ?thesis by simp
  qed
  from body show ?thesis
    using exact by (auto simp add: transfer_to_human_def)
qed

text \<open>The theorem at the fixture, with the forwarding number of the phone number removed.\<close>

theorem transfer_without_forwarding_number_witness:
  "map forward_to (phone_numbers (mockStore\<lparr>phone_numbers := [mockPhoneNumber\<lparr>forward_to := None\<rparr>]\<rparr>))
     = [None] \<and>
   final (transfer_to_human mockEnv mockContext mockTransferParams
            (mockStore\<lparr>phone_numbers := [mockPhoneNumber\<lparr>forward_to := None\<rparr>]\<rparr>))
     = mockStore\<lparr>phone_numbers := [mockPhoneNumber\<lparr>forward_to := None\<rparr>]\<rparr> \<and>
   external (transfer_to_human mockEnv mockContext mockTransferParams
            (mockStore\<lparr>phone_numbers := [mockPhoneNumber\<lparr>forward_to := None\<rparr>]\<rparr>)) = [] \<and>
   spoken (transfer_to_human mockEnv mockContext mockTransferParams
            (mockStore\<lparr>phone_numbers := [mockPhoneNumber\<lparr>forward_to := None\<rparr>]\<rparr>))
     = msg_no_transfer_number"
  using transfer_without_forwarding_number [of
      "mockStore\<lparr>phone_numbers := [mockPhoneNumber\<lparr>forward_to := None\<rparr>]\<rparr>"
      mockContext mockEnv mockTransferParams]
  by (simp add: mock_defs truthy_def getBusiness_def getCall_def single_def)

text \<open>
  Claim C6, as the code has it. When the tenant and the call are found, the phone number
  of the call has a forwarding number, the update of the call succeeds and the audit
  insert succeeds, then the call row carries \<open>transferred_to_human = true\<close> and the outcome
  \<open>transferred\<close>, exactly one audit event is appended and its type is
  \<open>transfer_initiated\<close>, and the tool answers with one of its two transfer messages. No
  assumption is made on the redirect: it may succeed, throw, or be skipped.
\<close>

theorem transfer_with_forwarding_number:
  assumes tenant: "getBusiness e st (businessId ctx) = Inr (Some b)"
    and call: "getCall e st (callId ctx) = Inr (Some c)" "truthy (phone_number_id c)"
    and number: "selectPhoneNumber e st (js_or_str (phone_number_id c) []) = Inr (Some p)"
                "truthy (forward_to p)"
    and writes: "net e Update_call = Up" "net e Insert_event = Up"
  shows "call_row (final (transfer_to_human e ctx a st)) (callId ctx) =
           Some (c\<lparr>transferred_to_human := Some True, outcome := Some ''transferred'',
                   c_notes := Some (trim (''Transfer reason: '' @ reason a @ ''. '' @
                                          js_or_str (transfer_notes a) []))\<rparr>) \<and>
         (\<exists>ev. call_events (final (transfer_to_human e ctx a st)) = call_events st @ [ev] \<and>
               event_type ev = ''transfer_initiated'' \<and> e_call_id ev = callId ctx) \<and>
         (spoken (transfer_to_human e ctx a st) = msg_transferring (reason a) \<or>
          spoken (transfer_to_human e ctx a st) = msg_connecting (reason a))"
proof -
  from getCall_found [OF call(1)]
  have sg: "single (filter (\<lambda>c. c_id c = callId ctx) (calls st)) = Some c" by simp
  then have f: "find (\<lambda>c. c_id c = callId ctx) (calls st) = Some c" by (rule find_single)
  define tn where "tn = js_or_str (forward_to p) []"
  have body: "transfer_to_human_try e ctx a st = transfer_with_number e ctx a tn st"
    using transfer_try_resolved [OF tenant call number(1)] number(2) by (simp add: tn_def)
  show ?thesis
    unfolding transfer_to_human_def body
    using writes sg f
    by (cases "initiateTransferViaTwilio e (js_or_str (twilioCallSid ctx) []) tn";
        cases "fst (initiateTransferViaTwilio e (js_or_str (twilioCallSid ctx) []) tn)")
      (simp_all add: transfer_with_number_def updateCall_def logCallEvent_def call_row_def
        find_map_update)
qed

text \<open>
  The theorem at the fixture, three times: the redirect throws, the redirect succeeds, and
  the context has no identifier of the telephony leg.
\<close>

theorem transfer_with_forwarding_number_witness:
  "map transferred_to_human (calls (final (transfer_to_human mockEnv mockContext mockTransferParams mockStore)))
     = [Some True] \<and>
   map outcome (calls (final (transfer_to_human mockEnv mockContext mockTransferParams mockStore)))
     = [Some ''transferred''] \<and>
   map event_type (call_events (final (transfer_to_human mockEnv mockContext mockTransferParams mockStore)))
     = [''transfer_initiated''] \<and>
   twilioFetch mockEnv = Throws \<and>
   spoken (transfer_to_human mockEnv mockContext mockTransferParams mockStore)
     = msg_connecting ''billing'' \<and>
   external (transfer_to_human mockEnv mockContext mockTransferParams mockStore)
     = [Twilio_redirect ''CA123'' ''+15559998888''] \<and>
   map transferred_to_human (calls (final (transfer_to_human twilioUp mockContext mockTransferParams mockStore)))
     = [Some True] \<and>
   map event_type (call_events (final (transfer_to_human twilioUp mockContext mockTransferParams mockStore)))
     = [''transfer_initiated''] \<and>
   spoken (transfer_to_human twilioUp mockContext mockTransferParams mockStore)
     = msg_transferring ''billing'' \<and>
   map transferred_to_human (calls (final (transfer_to_human mockEnv
        (mockContext\<lparr>twilioCallSid := None\<rparr>) mockTransferParams mockStore))) = [Some True] \<and>
   map event_type (call_events (final (transfer_to_human mockEnv
        (mockContext\<lparr>twilioCallSid := None\<rparr>) mockTransferParams mockStore)))
     = [''transfer_initiated''] \<and>
   spoken (transfer_to_human mockEnv (mockContext\<lparr>twilioCallSid := None\<rparr>) mockTransferParams mockStore)
     = msg_connecting ''billing'' \<and>
   external (transfer_to_human mockEnv (mockContext\<lparr>twilioCallSid := None\<rparr>) mockTransferParams mockStore)
     = []"
  using transfer_with_forwarding_number [of mockEnv mockStore mockContext mockBusiness mockCall
          mockPhoneNumber mockTransferParams]
    transfer_with_forwarding_number [of twilioUp mockStore mockContext mockBusiness mockCall
          mockPhoneNumber mockTransferParams]
    transfer_with_forwarding_number [of mockEnv mockStore "mockContext\<lparr>twilioCallSid := None\<rparr>"
          mockBusiness mockCall mockPhoneNumber mockTransferParams]
  by (simp add: twilioUp_def mock_defs transfer_defs)

text \<open>
  Claim C6 as it is worded fails when a write to the store fails although a forwarding
  number is configured. When the store answers the update of the call with an error, the
  caller hears the apology, the call is not marked and no audit event exists. When the
  store answers the audit insert with an error, \<open>logCallEvent\<close> drops it silently: the
  caller hears a transfer message and the call is marked, but no audit event is recorded.
\<close>

theorem transfer_store_failure_counterexample:
  "map forward_to (phone_numbers mockStore) = [Some ''+15559998888''] \<and>
   spoken (transfer_to_human (mockEnv\<lparr>net := (\<lambda>r. if r = Update_call then Errors else Up)\<rparr>)
             mockContext mockTransferParams mockStore) = msg_transfer_failed \<and>
   map transferred_to_human (calls (final (transfer_to_human
             (mockEnv\<lparr>net := (\<lambda>r. if r = Update_call then Errors else Up)\<rparr>)
             mockContext mockTransferParams mockStore))) = [None] \<and>
   map outcome (calls (final (transfer_to_human
             (mockEnv\<lparr>net := (\<lambda>r. if r = Update_call then Errors else Up)\<rparr>)
             mockContext mockTransferParams mockStore))) = [None] \<and>
   call_events (final (transfer_to_human
             (mockEnv\<lparr>net := (\<lambda>r. if r = Update_call then Errors else Up)\<rparr>)
             mockContext mockTransferParams mockStore)) = [] \<and>
   spoken (transfer_to_human (mockEnv\<lparr>net := (\<lambda>r. if r = Insert_event then Errors else Up)\<rparr>)
             mockContext mockTransferParams mockStore) = msg_connecting ''billing'' \<and>
   map transferred_to_human (calls (final (transfer_to_human
             (mockEnv\<lparr>net := (\<lambda>r. if r = Insert_event then Errors else Up)\<rparr>)
             mockContext mockTransferParams mockStore))) = [Some True] \<and>
   call_events (final (transfer_to_human
             (mockEnv\<lparr>net := (\<lambda>r. if r = Insert_event then Errors else Up)\<rparr>)
             mockContext mockTransferParams mockStore)) = []"
  by (simp add: mock_defs transfer_defs)

section \<open>check_business_hours\<close>

text \<open>The helpers of the tool on sample inputs.\<close>

lemma formatTime_examples:
  "formatTime ''17:00'' = ''5:00 PM''"
  "formatTime ''09:00'' = ''9:00 AM''"
  "formatTime ''00:30'' = ''12:30 AM''"
  "formatTime ''12:05'' = ''12:05 PM''"
  "formatTime ''noon'' = ''12:undefined AM''"
  by code_simp+

lemma str_less_examples:
  "str_less ''05:00'' ''09:00''" "\<not> str_less ''17:00'' ''09:00''" "str_less ''10:18'' ''17:00''"
  by code_simp+

lemma parseInt_examples:
  "parseInt ''42'' = Some 42" "parseInt '' -7x'' = Some (- 7)" "parseInt ''0x1f'' = Some 31"
  "parseInt ''abc'' = None" "parseInt '''' = None"
  by code_simp+

lemma trim_examples:
  "trim (''Transfer reason: billing. '' @ []) = ''Transfer reason: billing.''"
  "trim ([CHR 0xA0, CHR 0x09] @ ''a b'' @ [CHR 0x0A, CHR 0xA0]) = ''a b''"
  by code_simp+

lemma toLocaleDateString_lowercase: "toLocaleDateString e ''lowercase'' tz t = Inl RangeError"
  by (simp add: toLocaleDateString_def)

text \<open>
  Claim C7, against the code. The tool answers with the generic statement about Monday
  through Friday when the tenant is not found or has no map of hours, and with its
  fallback prompt when the lookup of the tenant rejects; so far the claim holds. When the
  tenant has a map of hours, the tool asks the engine for the weekday with the option value
  \<open>lowercase\<close>, which the engine refuses with a RangeError; the catch turns it into the
  fallback prompt. The code therefore never reports open or closed, whatever the map, the
  day and the time are.
\<close>

theorem check_business_hours_answers:
  "(\<forall>x. getBusiness e st (businessId ctx) = Inl x \<longrightarrow>
        spoken (check_business_hours e ctx st) = msg_hours_fallback) \<and>
   (getBusiness e st (businessId ctx) = Inr None \<longrightarrow>
        spoken (check_business_hours e ctx st) = msg_generic_hours) \<and>
   (\<forall>b. getBusiness e st (businessId ctx) = Inr (Some b) \<and> business_hours b = None \<longrightarrow>
        spoken (check_business_hours e ctx st) = msg_generic_hours) \<and>
   (\<forall>b hrs. getBusiness e st (businessId ctx) = Inr (Some b) \<and> business_hours b = Some hrs \<longrightarrow>
        spoken (check_business_hours e ctx st) = msg_hours_fallback)"
  by (simp add: check_business_hours_def check_business_hours_try_def
      toLocaleDateString_lowercase Let_def)

text \<open>
  The theorem at the fixture: a Tuesday, 05:00 in New York, with hours from 09:00 to 17:00
  for Tuesday. The answer is the fallback prompt and none of the two reports, and the
  other two cases answer as stated.
\<close>

theorem check_business_hours_answers_witness:
  "getBusiness mockEnv mockStore (businessId mockContext) = Inr (Some mockBusiness) \<and>
   (case business_hours mockBusiness of None \<Rightarrow> None | Some hrs \<Rightarrow> map_of hrs ''tuesday'')
      = Some \<lparr>opens = ''09:00'', closes = ''17:00''\<rparr> \<and>
   wallTime mockEnv ''America/New_York'' (clock mockEnv) = Some ''05:00'' \<and>
   spoken (check_business_hours mockEnv mockContext mockStore) = msg_hours_fallback \<and>
   spoken (check_business_hours mockEnv mockContext mockStore)
     \<noteq> msg_closed_now ''09:00'' ''17:00'' ''tuesday'' \<and>
   spoken (check_business_hours mockEnv mockContext mockStore) \<noteq> msg_open_until ''17:00'' \<and>
   spoken (check_business_hours mockEnv mockContext (mockStore\<lparr>businesses := []\<rparr>))
     = msg_generic_hours \<and>
   spoken (check_business_hours (mockEnv\<lparr>net := (\<lambda>r. Rejects)\<rparr>) mockContext mockStore)
     = msg_hours_fallback"
  using check_business_hours_answers [of mockEnv mockStore mockContext]
    check_business_hours_answers [of mockEnv "mockStore\<lparr>businesses := []\<rparr>" mockContext]
    check_business_hours_answers [of "mockEnv\<lparr>net := (\<lambda>r. Rejects)\<rparr>" mockStore mockContext]
  by (simp add: mock_defs getBusiness_def single_def msg_hours_fallback_def msg_closed_now_def
      msg_open_until_def)

section \<open>The agent entry\<close>

text \<open>
  Claim C8. When the parsed room metadata lacks the tenant id or the call id, \<open>entry\<close>
  raises, the store is untouched, and no action on the session has happened: the session
  is neither constructed nor started.
\<close>

theorem entry_missing_ids:
  assumes parsed: "jsonParse e (js_or_str metadata ''{}'') = Some v"
    and missing: "json_field v ''businessId'' = None \<or> json_field v ''callId'' = None"
  shows "(\<exists>x. fst (entry e metadata st) = Inl x) \<and>
         fst (snd (entry e metadata st)) = st \<and>
         snd (snd (entry e metadata st)) = [] \<and>
         Session_constructed \<notin> set (snd (snd (entry e metadata st))) \<and>
         Session_started \<notin> set (snd (snd (entry e metadata st)))"
  using assms by (cases v) (auto simp add: entry_def truthy_def)

text \<open>
  The theorem at a room without metadata, and at a room whose metadata names the call but
  not the tenant.
\<close>

theorem entry_missing_ids_witness:
  "jsonParse mockEnv (js_or_str None ''{}'') = Some (JObject []) \<and>
   json_field (JObject []) ''businessId'' = None \<and>
   fst (entry mockEnv None mockStore) = Inl (Error ''Missing businessId or callId in room metadata'') \<and>
   fst (snd (entry mockEnv None mockStore)) = mockStore \<and>
   snd (snd (entry mockEnv None mockStore)) = [] \<and>
   jsonParse mockEnv (js_or_str (Some metadataWithoutBusiness) ''{}'')
     = Some (JObject [(''callId'', Some ''call-1'')]) \<and>
   json_field (JObject [(''callId'', Some ''call-1'')]) ''callId'' = Some ''call-1'' \<and>
   json_field (JObject [(''callId'', Some ''call-1'')]) ''businessId'' = None \<and>
   fst (entry mockEnv (Some metadataWithoutBusiness) mockStore)
     = Inl (Error ''Missing businessId or callId in room metadata'') \<and>
   snd (snd (entry mockEnv (Some metadataWithoutBusiness) mockStore)) = []"
  using entry_missing_ids [of mockEnv None "JObject []" mockStore]
    entry_missing_ids [of mockEnv "Some metadataWithoutBusiness"
       "JObject [(''callId'', Some ''call-1'')]" mockStore]
  by (simp add: mockEnv_def metadataWithoutBusiness_def js_or_str_def json_field_def entry_def
      truthy_def)

section \<open>The writers of the call status\<close>

lemma filter_map_update:
  assumes "\<And>r. c_id (f r) = c_id r"
  shows "filter (\<lambda>c. c_id c = cid) (map (\<lambda>r. if c_id r = k then f r else r) xs)
       = map (\<lambda>r. if c_id r = k then f r else r) (filter (\<lambda>c. c_id c = cid) xs)"
  using assms by (induction xs) auto

text \<open>What a write through updateCall under the key k does to the row with the key cid.\<close>

lemma row_after_updateCall:
  assumes one: "single (filter (\<lambda>c. c_id c = cid) (calls st)) = Some c"
    and up: "net e Update_call = Up"
    and keep: "\<And>r. c_id (f r) = c_id r" "\<And>r. twilio_call_sid (f r) = twilio_call_sid r"
  shows "single (filter (\<lambda>c. c_id c = cid) (calls (snd (updateCall e st k f))))
           = Some (if k = cid then f c else c)"
    and "map c_id (calls (snd (updateCall e st k f))) = map c_id (calls st)"
    and "map twilio_call_sid (calls (snd (updateCall e st k f))) = map twilio_call_sid (calls st)"
proof -
  from one have flt: "filter (\<lambda>c. c_id c = cid) (calls st) = [c]"
    by (simp add: single_Some_iff)
  then have "c \<in> set (filter (\<lambda>c. c_id c = cid) (calls st))" by simp
  then have cid: "c_id c = cid" by simp
  show "single (filter (\<lambda>c. c_id c = cid) (calls (snd (updateCall e st k f))))
           = Some (if k = cid then f c else c)"
    using up one cid keep(1)
    by (auto simp add: updateCall_def filter_map_update [of f, OF keep(1)] flt single_def
        split: option.splits)
  show "map c_id (calls (snd (updateCall e st k f))) = map c_id (calls st)"
    using up keep(1) by (auto simp add: updateCall_def split: option.splits)
  show "map twilio_call_sid (calls (snd (updateCall e st k f))) = map twilio_call_sid (calls st)"
    using up keep(2) by (auto simp add: updateCall_def split: option.splits)
qed

lemma filter_same_columns:
  assumes "map f xs = map f ys" and "map g xs = map g ys"
  shows "map f (filter (\<lambda>x. g x = v) xs) = map f (filter (\<lambda>x. g x = v) ys)"
  using assms
proof (induction xs arbitrary: ys)
  case Nil
  then show ?case by simp
next
  case (Cons x xs)
  then obtain y ys' where "ys = y # ys'" by (cases ys) auto
  with Cons show ?case by auto
qed

lemma addresses_same_columns:
  assumes "map c_id (calls st) = map c_id (calls st0)"
    and "map twilio_call_sid (calls st) = map twilio_call_sid (calls st0)"
  shows "addresses st cid op = addresses st0 cid op"
proof (cases op)
  case (Status_callback s cs dur)
  have "map c_id (take 1 (filter (\<lambda>c. twilio_call_sid c = Some s) (calls st)))
      = map c_id (take 1 (filter (\<lambda>c. twilio_call_sid c = Some s) (calls st0)))"
    using filter_same_columns [OF assms, of "Some s"] by (simp add: take_map [symmetric])
  then show ?thesis by (simp add: Status_callback)
qed simp_all

lemma status_op_step:
  assumes one: "single (filter (\<lambda>c. c_id c = cid) (calls st)) = Some c"
    and up: "\<forall>r. net e r = Up"
  shows "\<exists>c'. single (filter (\<lambda>c. c_id c = cid) (calls (apply_status_op e op st))) = Some c' \<and>
         status c' = (if addresses st cid op
                      then (case written_status op of None \<Rightarrow> status c | Some w \<Rightarrow> w)
                      else status c) \<and>
         map c_id (calls (apply_status_op e op st)) = map c_id (calls st) \<and>
         map twilio_call_sid (calls (apply_status_op e op st)) = map twilio_call_sid (calls st)"
proof (cases op)
  case (Session_start k)
  define f where "f = (\<lambda>c::call. c\<lparr>status := In_progress, answered_at := Some (clock e)\<rparr>)"
  have ap: "apply_status_op e op st = snd (updateCall e st k f)"
    by (simp add: Session_start session_start_update_def f_def)
  from up have u: "net e Update_call = Up" by simp
  show ?thesis
    unfolding ap
    using row_after_updateCall [OF one u, of f k]
    by (simp add: f_def Session_start)
next
  case (Shutdown k)
  from up have u: "net e Update_call = Up" and g: "net e Select_call = Up" by simp_all
  show ?thesis
  proof (cases "single (filter (\<lambda>c. c_id c = k) (calls st))")
    case None
    with one have "k \<noteq> cid" by auto
    moreover have "apply_status_op e op st = st"
      using None g by (simp add: Shutdown updateFinalCallStats_def getCall_def)
    ultimately show ?thesis using one by (simp add: Shutdown)
  next
    case (Some cl)
    define f where "f = (\<lambda>x::call. x\<lparr>status := Call_completed, ended_at := Some (clock e),
                        duration_seconds := Some ((clock e - started_at cl) div 1000)\<rparr>)"
    have ap: "apply_status_op e op st = snd (updateCall e st k f)"
      using Some g by (simp add: Shutdown updateFinalCallStats_def getCall_def f_def)
    show ?thesis
      unfolding ap
      using row_after_updateCall [OF one u, of f k]
      by (simp add: f_def Shutdown)
  qed
next
  case (Status_callback s cs dur)
  from up have u: "net e Update_call = Up" and g: "net e Select_calls_by_sid = Up" by simp_all
  show ?thesis
  proof (cases "take 1 (filter (\<lambda>c. twilio_call_sid c = Some s) (calls st))")
    case Nil
    then have "apply_status_op e op st = st"
      using g by (simp add: Status_callback twilio_status_callback_def)
    then show ?thesis using one Nil by (simp add: Status_callback)
  next
    case (Cons cl rest)
    have "length (take 1 (filter (\<lambda>c. twilio_call_sid c = Some s) (calls st))) \<le> 1" by simp
    with Cons have rest: "rest = []" by simp
    define f where "f = status_updates e cs dur"
    have keep: "\<And>r. c_id (f r) = c_id r" "\<And>r. twilio_call_sid (f r) = twilio_call_sid r"
      by (simp_all add: f_def status_updates_def)
    have ap: "calls (apply_status_op e op st) = calls (snd (updateCall e st (c_id cl) f))"
      using Cons g
      by (cases "updateCall e st (c_id cl) f"; cases "fst (updateCall e st (c_id cl) f)")
        (simp_all add: Status_callback twilio_status_callback_def f_def logCallEvent_def
          split: link.splits)
    have st: "status (f c) = (case written_status op of None \<Rightarrow> status c | Some w \<Rightarrow> w)"
      by (simp add: f_def status_updates_def Status_callback)
    have ad: "addresses st cid op \<longleftrightarrow> c_id cl = cid"
      using Cons rest by (simp add: Status_callback)
    show ?thesis
      unfolding ap ad
      using row_after_updateCall [OF one u keep, of "c_id cl"] st
      by auto
  qed
qed

lemma last_written_Cons:
  "last_written s (op # ops) =
     last_written (case written_status op of None \<Rightarrow> s | Some w \<Rightarrow> w) ops"
  by (simp add: last_written_def)

lemma run_status_ops_from:
  assumes one: "single (filter (\<lambda>c. c_id c = cid) (calls st)) = Some c"
    and ops: "\<forall>(e, op)\<in>set ops. \<forall>r. net e r = Up"
    and ids: "map c_id (calls st) = map c_id (calls st0)"
    and sids: "map twilio_call_sid (calls st) = map twilio_call_sid (calls st0)"
  shows "status_of (run_status_ops ops st) cid =
           Some (last_written (status c) (filter (addresses st0 cid) (map snd ops)))"
  using assms
proof (induction ops arbitrary: st c)
  case Nil
  then show ?case
    by (simp add: status_of_def last_written_def find_single)
next
  case (Cons x ops)
  obtain e op where x: "x = (e, op)" by (cases x)
  from Cons.prems(2) x have up: "\<forall>r. net e r = Up"
    and rest: "\<forall>(e, op)\<in>set ops. \<forall>r. net e r = Up"
    by auto
  from status_op_step [OF Cons.prems(1) up, of op] obtain c' where
    1: "single (filter (\<lambda>c. c_id c = cid) (calls (apply_status_op e op st))) = Some c'"
    and 2: "status c' = (if addresses st cid op
                         then (case written_status op of None \<Rightarrow> status c | Some w \<Rightarrow> w)
                         else status c)"
    and 3: "map c_id (calls (apply_status_op e op st)) = map c_id (calls st)"
    and 4: "map twilio_call_sid (calls (apply_status_op e op st)) = map twilio_call_sid (calls st)"
    by blast
  have ad: "addresses st cid op = addresses st0 cid op"
    using addresses_same_columns [OF Cons.prems(3,4)] .
  from Cons.IH [OF 1 rest] 3 4 Cons.prems(3,4)
  have "status_of (run_status_ops ops (apply_status_op e op st)) cid =
          Some (last_written (status c') (filter (addresses st0 cid) (map snd ops)))"
    by simp
  with 2 ad show ?case
    by (simp add: x last_written_Cons)
qed

lemmas status_defs = status_of_def session_start_update_def updateFinalCallStats_def
  twilio_status_callback_def status_updates_def getCall_def updateCall_def logCallEvent_def
  single_def truthy_def js_or_str_def opt_field_def

text \<open>
  Claim C9, as the code has it. Take any call, that is a row that is the only one with its
  key, with or without a telephony identifier, and any run of status writers (the update
  at the start of the session, status callbacks, the finalization at shutdown, addressed
  to this call or to others) while the store accepts every request. Each writer stores its
  status without looking at the status it finds: in the end the status of the call is the
  one written last by a writer that addresses it, \<open>in_progress\<close> by the update at the
  start of the session, \<open>completed\<close> or \<open>failed\<close> by a callback with a terminal
  telephony status, \<open>completed\<close> by the finalization, and the initial status when no
  writer of the run that addresses the call writes one.
\<close>

theorem status_last_write_wins:
  assumes one: "single (filter (\<lambda>c. c_id c = cid) (calls st)) = Some c"
    and ops: "\<forall>(e, op)\<in>set ops. \<forall>r. net e r = Up"
  shows "status_of (run_status_ops ops st) cid =
           Some (last_written (status c) (filter (addresses st cid) (map snd ops)))"
  using run_status_ops_from [OF one ops refl refl] .

text \<open>
  The theorem at the fixture, for the empty run, for a callback reporting \<open>busy\<close>, and for
  that callback followed by the finalization; and at a call without a telephony
  identifier, which no callback addresses but which the finalization completes and the
  update at the start of the session puts back to \<open>in_progress\<close>.
\<close>

theorem status_last_write_wins_witness:
  "status_of mockStore ''call-1'' = Some In_progress \<and>
   status_of (run_status_ops [(mockEnv, Status_callback ''CA123'' ''busy'' None)] mockStore) ''call-1''
     = Some Failed \<and>
   status_of (run_status_ops [(mockEnv, Status_callback ''CA123'' ''busy'' None),
                              (mockEnv, Shutdown ''call-1'')] mockStore) ''call-1''
     = Some Call_completed \<and>
   last_written In_progress
      (filter (addresses mockStore ''call-1'')
         [Status_callback ''CA123'' ''busy'' None, Shutdown ''call-1''])
     = Call_completed \<and>
   map twilio_call_sid (calls (mockStore\<lparr>calls := [mockCall\<lparr>twilio_call_sid := None\<rparr>]\<rparr>))
     = [None] \<and>
   status_of (run_status_ops [(mockEnv, Status_callback ''CA123'' ''busy'' None)]
                (mockStore\<lparr>calls := [mockCall\<lparr>twilio_call_sid := None\<rparr>]\<rparr>)) ''call-1''
     = Some In_progress \<and>
   status_of (run_status_ops [(mockEnv, Shutdown ''call-1'')]
                (mockStore\<lparr>calls := [mockCall\<lparr>twilio_call_sid := None\<rparr>]\<rparr>)) ''call-1''
     = Some Call_completed \<and>
   status_of (run_status_ops [(mockEnv, Shutdown ''call-1''), (mockEnv, Session_start ''call-1'')]
                (mockStore\<lparr>calls := [mockCall\<lparr>twilio_call_sid := None\<rparr>]\<rparr>)) ''call-1''
     = Some In_progress"
  using status_last_write_wins [of "''call-1''" mockStore mockCall "[]"]
    status_last_write_wins [of "''call-1''" mockStore mockCall
      "[(mockEnv, Status_callback ''CA123'' ''busy'' None)]"]
    status_last_write_wins [of "''call-1''" mockStore mockCall
      "[(mockEnv, Status_callback ''CA123'' ''busy'' None), (mockEnv, Shutdown ''call-1'')]"]
    status_last_write_wins [of "''call-1''"
      "mockStore\<lparr>calls := [mockCall\<lparr>twilio_call_sid := None\<rparr>]\<rparr>"
      "mockCall\<lparr>twilio_call_sid := None\<rparr>"
      "[(mockEnv, Status_callback ''CA123'' ''busy'' None)]"]
    status_last_write_wins [of "''call-1''"
      "mockStore\<lparr>calls := [mockCall\<lparr>twilio_call_sid := None\<rparr>]\<rparr>"
      "mockCall\<lparr>twilio_call_sid := None\<rparr>"
      "[(mockEnv, Shutdown ''call-1'')]"]
    status_last_write_wins [of "''call-1''"
      "mockStore\<lparr>calls := [mockCall\<lparr>twilio_call_sid := None\<rparr>]\<rparr>"
      "mockCall\<lparr>twilio_call_sid := None\<rparr>"
      "[(mockEnv, Shutdown ''call-1''), (mockEnv, Session_start ''call-1'')]"]
  by (simp add: mockStore_def mockCall_def mockEnv_def single_def last_written_def)

text \<open>
  Claim C9 as it is worded fails in both directions. A callback reporting \<open>busy\<close> moves
  the call from \<open>in_progress\<close> to \<open>failed\<close>, and the finalization at shutdown then
  overwrites \<open>failed\<close> with \<open>completed\<close>. A callback reporting \<open>completed\<close> moves the
  call to \<open>completed\<close>, and the update at the start of the session then puts it back to
  \<open>in_progress\<close>.
\<close>

theorem status_overwritten_counterexample:
  "status_of mockStore ''call-1'' = Some In_progress \<and>
   status_of (run_status_ops [(mockEnv, Status_callback ''CA123'' ''busy'' None)] mockStore) ''call-1''
     = Some Failed \<and>
   status_of (run_status_ops [(mockEnv, Status_callback ''CA123'' ''busy'' None),
                              (mockEnv, Shutdown ''call-1'')] mockStore) ''call-1''
     = Some Call_completed \<and>
   status_of (run_status_ops [(mockEnv, Status_callback ''CA123'' ''completed'' (Some ''42''))]
                mockStore) ''call-1''
     = Some Call_completed \<and>
   status_of (run_status_ops [(mockEnv, Status_callback ''CA123'' ''completed'' (Some ''42'')),
                              (mockEnv, Session_start ''call-1'')] mockStore) ''call-1''
     = Some In_progress"
  by (simp add: mockStore_def mockCall_def mockEnv_def status_defs)

end
